theory Spec2Isabelle
  imports Complex_Main "HOL-Library.AList" "HOL-Library.Sublist"
begin

section \<open>Python values and configuration dictionaries\<close>

text \<open>
  The module \<^verbatim>\<open>rls/common/agent.py\<close> moves values between configuration
  dictionaries. A value is what a YAML configuration file can hold: None, a bool, an
  int, a float, a string, a list or a mapping. A float is the real number it denotes,
  or one of the three special values. The keys of a mapping are strings or ints (a
  bool key is the int it equals); a mapping is an association list in insertion order,
  as a Python dict is.
\<close>

datatype pyfloat = Finite real | PosInf | NegInf | NaN

datatype pykey = KStr string | KInt int

datatype pyval =
    PNone
  | PBool bool
  | PInt int
  | PFloat pyfloat
  | PStr string
  | PList "pyval list"
  | PDict "(pykey \<times> pyval) list"

type_synonym dict = "(pykey \<times> pyval) list"

text \<open>The exceptions that the module's own statements can raise.\<close>

datatype error =
    KeyError pykey
  | IndexError
  | TypeError
  | AttributeError string
  | NameError string
  | AssertionError
  | SystemExit
  | Exception string
  | External string

text \<open>\<^verbatim>\<open>d[k]\<close>, \<^verbatim>\<open>d.get(k, default)\<close> and \<^verbatim>\<open>d[k] = v\<close> on a dict with a string key.\<close>

definition cfg_get :: "dict \<Rightarrow> string \<Rightarrow> pyval option" where
  "cfg_get d k = map_of d (KStr k)"

definition cfg_item :: "dict \<Rightarrow> string \<Rightarrow> error + pyval" where
  "cfg_item d k = (case cfg_get d k of None \<Rightarrow> Inl (KeyError (KStr k)) | Some v \<Rightarrow> Inr v)"

definition cfg_get_default :: "dict \<Rightarrow> string \<Rightarrow> pyval \<Rightarrow> pyval" where
  "cfg_get_default d k dflt = (case cfg_get d k of None \<Rightarrow> dflt | Some v \<Rightarrow> v)"

definition cfg_set :: "dict \<Rightarrow> string \<Rightarrow> pyval \<Rightarrow> dict" where
  "cfg_set d k v = AList.update (KStr k) v d"

text \<open>\<^verbatim>\<open>x[k]\<close> for a string \<open>k\<close> on any value: only a mapping can be subscripted by a string.\<close>

fun py_getitem_str :: "pyval \<Rightarrow> string \<Rightarrow> error + pyval" where
  "py_getitem_str (PDict d) k = cfg_item d k"
| "py_getitem_str _ k = Inl TypeError"

text \<open>\<^verbatim>\<open>xs[key]\<close> on a list: the index is an int or a bool, negative indices count from the end.\<close>

definition list_index :: "pyval list \<Rightarrow> int \<Rightarrow> error + pyval" where
  "list_index xs i =
     (if 0 \<le> i \<and> i < int (length xs) then Inr (xs ! nat i)
      else if i < 0 \<and> - int (length xs) \<le> i then Inr (xs ! nat (int (length xs) + i))
      else Inl IndexError)"

fun py_list_getitem :: "pyval list \<Rightarrow> pyval \<Rightarrow> error + (pykey \<times> pyval)" where
  "py_list_getitem xs (PInt i) = map_sum id (Pair (KInt i)) (list_index xs i)"
| "py_list_getitem xs (PBool b) =
     map_sum id (Pair (KInt (if b then 1 else 0))) (list_index xs (if b then 1 else 0))"
| "py_list_getitem xs _ = Inl TypeError"

section \<open>UpdateConfig\<close>

text \<open>
  The loop \<^verbatim>\<open>for key in key_values: config[key] = key_values[key]\<close>, by the type of
  \<^verbatim>\<open>key_values\<close>. Iterating a mapping yields its keys; iterating a list yields its
  elements, each then used as an index into the list; iterating a string yields
  one-character strings, which cannot index a string; the other values are not iterable.
\<close>

fun update_from_dict :: "dict \<Rightarrow> pykey list \<Rightarrow> dict \<Rightarrow> error + dict" where
  "update_from_dict key_values [] config = Inr config"
| "update_from_dict key_values (key # keys) config =
     (case map_of key_values key of
        None \<Rightarrow> Inl (KeyError key)
      | Some v \<Rightarrow> update_from_dict key_values keys (AList.update key v config))"

fun update_from_list :: "pyval list \<Rightarrow> pyval list \<Rightarrow> dict \<Rightarrow> error + dict" where
  "update_from_list key_values [] config = Inr config"
| "update_from_list key_values (key # keys) config =
     (case py_list_getitem key_values key of
        Inl e \<Rightarrow> Inl e
      | Inr (k, v) \<Rightarrow> update_from_list key_values keys (AList.update k v config))"

fun update_loop :: "pyval \<Rightarrow> dict \<Rightarrow> error + dict" where
  "update_loop (PDict key_values) config = update_from_dict key_values (map fst key_values) config"
| "update_loop (PList key_values) config = update_from_list key_values key_values config"
| "update_loop (PStr s) config = (if s = [] then Inr config else Inl TypeError)"
| "update_loop _ config = Inl TypeError"

text \<open>
  \<^verbatim>\<open>UpdateConfig(config, file_path, key_name)\<close>. \<open>load_config\<close> reads the file and is
  not part of this module: it is a parameter. The subscript
  \<^verbatim>\<open>_config[key_name]\<close> (here \<open>loaded\<close>) is outside the \<^verbatim>\<open>try\<close>; any
  exception of the loop is logged and ends in \<^verbatim>\<open>sys.exit()\<close>.
\<close>

definition UpdateConfig ::
  "('p \<Rightarrow> error + pyval) \<Rightarrow> dict \<Rightarrow> 'p \<Rightarrow> string \<Rightarrow> error + dict" where
  "UpdateConfig load_config config file_path key_name =
     (case load_config file_path of
        Inl e \<Rightarrow> Inl e
      | Inr loaded \<Rightarrow>
          (case py_getitem_str loaded key_name of
             Inl e \<Rightarrow> Inl e
           | Inr key_values \<Rightarrow>
               (case update_loop key_values config of
                  Inl e \<Rightarrow> Inl SystemExit
                | Inr config' \<Rightarrow> Inr config')))"


section \<open>The agent\<close>

text \<open>
  Truth value of a Python value, as \<^verbatim>\<open>if x\<close> and \<^verbatim>\<open>x and y\<close> take it, and the
  comparison \<^verbatim>\<open>x == True\<close>, which holds of True, 1 and 1.0 only.
\<close>

fun truthy :: "pyval \<Rightarrow> bool" where
  "truthy PNone = False"
| "truthy (PBool b) = b"
| "truthy (PInt i) = (i \<noteq> 0)"
| "truthy (PFloat f) = (f \<noteq> Finite 0)"
| "truthy (PStr s) = (s \<noteq> [])"
| "truthy (PList xs) = (xs \<noteq> [])"
| "truthy (PDict d) = (d \<noteq> [])"

fun py_eq_True :: "pyval \<Rightarrow> bool" where
  "py_eq_True (PBool b) = b"
| "py_eq_True (PInt i) = (i = 1)"
| "py_eq_True (PFloat f) = (f = Finite 1)"
| "py_eq_True _ = False"

text \<open>Sequencing of statements that may raise.\<close>

definition bind_err :: "error + 'a \<Rightarrow> ('a \<Rightarrow> error + 'b) \<Rightarrow> error + 'b" where
  "bind_err m f = (case m of Inl e \<Rightarrow> Inl e | Inr x \<Rightarrow> f x)"

text \<open>
  \<^verbatim>\<open>d[sec][k]\<close> and \<^verbatim>\<open>d[sec][k] = v\<close>: the section is looked up first (KeyError), then
  subscripted (TypeError unless it is a mapping). \<open>section_get\<close> is the same read
  without the exceptions.
\<close>

definition cfg_item_in :: "dict \<Rightarrow> string \<Rightarrow> string \<Rightarrow> error + pyval" where
  "cfg_item_in d sec k = bind_err (cfg_item d sec) (\<lambda>sd. py_getitem_str sd k)"

definition cfg_set_in :: "dict \<Rightarrow> string \<Rightarrow> string \<Rightarrow> pyval \<Rightarrow> error + dict" where
  "cfg_set_in d sec k v =
     bind_err (cfg_item d sec) (\<lambda>sd.
       case sd of
         PDict sdict \<Rightarrow> Inr (cfg_set d sec (PDict (cfg_set sdict k v)))
       | _ \<Rightarrow> Inl TypeError)"

definition section_get :: "dict \<Rightarrow> string \<Rightarrow> string \<Rightarrow> pyval option" where
  "section_get d sec k = (case cfg_get d sec of Some (PDict sdict) \<Rightarrow> cfg_get sdict k | _ \<Rightarrow> None)"

text \<open>
  The calls the agent makes to the builtin \<^verbatim>\<open>pow\<close> and to \<^verbatim>\<open>get_buffer\<close>, and the
  buffers it hands to \<^verbatim>\<open>set_buffer\<close>, are recorded in a ghost field, in the order in
  which they happen.
\<close>

datatype call = Pow pyval pyval | GetBuffer dict | SetBuffer

text \<open>
  The attributes of an Agent. \<open>'e\<close> is the environment and \<open>'m\<close> a model (both
  built by code outside the module); \<^verbatim>\<open>self.model\<close> and \<^verbatim>\<open>self.models\<close> exist only
  after the branch of the constructor that assigns them.
\<close>

record ('e, 'm) agent =
  env_args :: dict
  model_args :: dict
  buffer_args :: dict
  train_args :: dict
  algo_args :: dict
  name :: pyval
  allow_print :: bool
  multi_agents_training :: bool
  env :: 'e
  model :: "'m option"
  models :: "'m list option"
  trace :: "call list"

subsection \<open>Buffer selection in the constructor\<close>

text \<open>
  Lines 111 to 117 of the constructor: the recurrent case. \<^verbatim>\<open>get\<close> supplies 0 for a
  missing key.
\<close>

definition select_episode :: "('e, 'm) agent \<Rightarrow> error + ('e, 'm) agent" where
  "select_episode s =
     (let b1 = cfg_set (buffer_args s) ''type'' (PStr ''EpisodeER'');
          b2 = cfg_set b1 ''batch_size'' (cfg_get_default (algo_args s) ''episode_batch_size'' (PInt 0));
          b3 = cfg_set b2 ''buffer_size'' (cfg_get_default (algo_args s) ''episode_buffer_size'' (PInt 0))
      in bind_err (cfg_set_in b3 ''EpisodeER'' ''burn_in_time_step''
                     (cfg_get_default (algo_args s) ''burn_in_time_step'' (PInt 0))) (\<lambda>b4.
         bind_err (cfg_set_in b4 ''EpisodeER'' ''train_time_step''
                     (cfg_get_default (algo_args s) ''train_time_step'' (PInt 0))) (\<lambda>b5.
         Inr (s\<lparr>buffer_args := b5\<rparr>))))"

text \<open>
  Lines 124 to 137, after \<^verbatim>\<open>batch_size\<close> and \<^verbatim>\<open>buffer_size\<close> are stored in \<open>b\<close>.
  In each assignment the right-hand side is evaluated before the target. \<open>pw\<close> is the
  builtin \<^verbatim>\<open>pow\<close>.
\<close>

definition select_nstep_per ::
  "(pyval \<Rightarrow> pyval \<Rightarrow> error + pyval) \<Rightarrow> dict \<Rightarrow> ('e, 'm) agent \<Rightarrow> error + ('e, 'm) agent" where
  "select_nstep_per pw b s =
     (let b1 = cfg_set b ''type'' (PStr ''NstepPER'')
      in bind_err (cfg_item (train_args s) ''max_train_step'') (\<lambda>mts.
         bind_err (cfg_set_in b1 ''NstepPER'' ''max_train_step'' mts) (\<lambda>b2.
         bind_err (cfg_item (algo_args s) ''gamma'') (\<lambda>g.
         bind_err (cfg_set_in b2 ''NstepPER'' ''gamma'' g) (\<lambda>b3.
         bind_err (cfg_item (algo_args s) ''gamma'') (\<lambda>g'.
         bind_err (cfg_item_in b3 ''NstepPER'' ''n'') (\<lambda>n.
         bind_err (pw g' n) (\<lambda>r.
         Inr (s\<lparr>buffer_args := b3,
                algo_args := cfg_set (algo_args s) ''gamma'' r,
                trace := trace s @ [Pow g' n]\<rparr>)))))))))"

definition select_per :: "dict \<Rightarrow> ('e, 'm) agent \<Rightarrow> error + ('e, 'm) agent" where
  "select_per b s =
     (let b1 = cfg_set b ''type'' (PStr ''PER'')
      in bind_err (cfg_item (train_args s) ''max_train_step'') (\<lambda>mts.
         bind_err (cfg_set_in b1 ''PER'' ''max_train_step'' mts) (\<lambda>b2.
         Inr (s\<lparr>buffer_args := b2\<rparr>))))"

definition select_nstep_er ::
  "(pyval \<Rightarrow> pyval \<Rightarrow> error + pyval) \<Rightarrow> dict \<Rightarrow> ('e, 'm) agent \<Rightarrow> error + ('e, 'm) agent" where
  "select_nstep_er pw b s =
     (let b1 = cfg_set b ''type'' (PStr ''NstepER'')
      in bind_err (cfg_item (algo_args s) ''gamma'') (\<lambda>g.
         bind_err (cfg_set_in b1 ''NstepER'' ''gamma'' g) (\<lambda>b2.
         bind_err (cfg_item (algo_args s) ''gamma'') (\<lambda>g'.
         bind_err (cfg_item_in b2 ''NstepER'' ''n'') (\<lambda>n.
         bind_err (pw g' n) (\<lambda>r.
         Inr (s\<lparr>buffer_args := b2,
                algo_args := cfg_set (algo_args s) ''gamma'' r,
                trace := trace s @ [Pow g' n]\<rparr>)))))))"

text \<open>Lines 119 to 137: the case without recurrent state.\<close>

definition select_transition ::
  "(pyval \<Rightarrow> pyval \<Rightarrow> error + pyval) \<Rightarrow> ('e, 'm) agent \<Rightarrow> error + ('e, 'm) agent" where
  "select_transition pw s =
     (let b1 = cfg_set (buffer_args s) ''batch_size'' (cfg_get_default (algo_args s) ''batch_size'' (PInt 0));
          b2 = cfg_set b1 ''buffer_size'' (cfg_get_default (algo_args s) ''buffer_size'' (PInt 0));
          use_priority = cfg_get_default (algo_args s) ''use_priority'' (PBool False);
          n_step = cfg_get_default (algo_args s) ''n_step'' (PBool False)
      in if truthy use_priority \<and> truthy n_step then select_nstep_per pw b2 s
         else if truthy use_priority then select_per b2 s
         else if truthy n_step then select_nstep_er pw b2 s
         else Inr (s\<lparr>buffer_args := cfg_set b2 ''type'' (PStr ''ER'')\<rparr>))"

text \<open>
  Lines 110 to 140. \<open>policy_mode\<close> is the third component of what
  \<^verbatim>\<open>get_model_info\<close> returned.
\<close>

definition select_buffer ::
  "(pyval \<Rightarrow> pyval \<Rightarrow> error + pyval) \<Rightarrow> string \<Rightarrow> ('e, 'm) agent \<Rightarrow> error + ('e, 'm) agent" where
  "select_buffer pw policy_mode s =
     (if policy_mode = ''off-policy'' then
        bind_err (cfg_item (algo_args s) ''use_rnn'') (\<lambda>use_rnn.
          if py_eq_True use_rnn then select_episode s else select_transition pw s)
      else Inr (s\<lparr>buffer_args := cfg_set (buffer_args s) ''type'' (PStr ''None''),
                  train_args := cfg_set (train_args s) ''pre_fill_steps'' (PInt 0)\<rparr>))"

text \<open>The configurations that \<^verbatim>\<open>get_buffer\<close> received, in order.\<close>

fun get_buffer_calls :: "call list \<Rightarrow> dict list" where
  "get_buffer_calls [] = []"
| "get_buffer_calls (GetBuffer c # cs) = c # get_buffer_calls cs"
| "get_buffer_calls (_ # cs) = get_buffer_calls cs"

subsection \<open>What the constructor calls\<close>

text \<open>
  The constructor calls code that is not in the module: the environment, the
  algorithm registry, the model class, the buffer factory, the configuration files
  and wandb, and the builtins \<^verbatim>\<open>pow\<close>, \<^verbatim>\<open>+\<close> and \<^verbatim>\<open>os.path.join\<close>.
  Each is a parameter that returns a value or raises. \<open>'b\<close> is a buffer and
  \<open>'k\<close> a model class.
\<close>

record ('e, 'm, 'b, 'k) externals =
  x_make_env :: "dict \<Rightarrow> error + 'e"
  x_get_model_info :: "pyval \<Rightarrow> error + ('k \<times> dict \<times> string \<times> string)"
  x_load_config :: "pyval \<Rightarrow> error + pyval"
  x_path_join :: "pyval \<Rightarrow> pyval \<Rightarrow> error + pyval"
  x_pow :: "pyval \<Rightarrow> pyval \<Rightarrow> error + pyval"
  x_add :: "pyval \<Rightarrow> pyval \<Rightarrow> error + pyval"
  x_get_buffer :: "dict \<Rightarrow> error + 'b"
  x_env_attr :: "'e \<Rightarrow> string \<Rightarrow> error + pyval"
  x_Model :: "'k \<Rightarrow> dict \<Rightarrow> error + 'm"
  x_set_buffer :: "'m \<Rightarrow> 'b \<Rightarrow> error + 'm"
  x_init_or_restore :: "'m \<Rightarrow> pyval \<Rightarrow> error + 'm"
  x_get_init_training_info :: "'m \<Rightarrow> error + pyval"
  x_save_config :: "pyval \<Rightarrow> pyval \<Rightarrow> error + unit"
  x_import_wandb :: "error + unit"
  x_ensure_dir :: "pyval \<Rightarrow> error + unit"
  x_wandb_init :: "pyval \<Rightarrow> pyval \<Rightarrow> pyval \<Rightarrow> error + unit"
  x_wandb_config_update :: "pyval \<Rightarrow> error + unit"

text \<open>
  \<^verbatim>\<open>Config\<close> is not part of the module either: \<^verbatim>\<open>c.k\<close> reads the entry that
  \<^verbatim>\<open>c['k']\<close> reads and raises AttributeError where that raises KeyError.
\<close>

definition cfg_attr :: "dict \<Rightarrow> string \<Rightarrow> error + pyval" where
  "cfg_attr d k = (case cfg_get d k of None \<Rightarrow> Inl (AttributeError k) | Some v \<Rightarrow> Inr v)"

text \<open>Evaluating expressions from left to right, and \<^verbatim>\<open>d.update({k1: v1, ...})\<close>.\<close>

fun collect :: "(error + 'a) list \<Rightarrow> error + 'a list" where
  "collect [] = Inr []"
| "collect (m # ms) = bind_err m (\<lambda>x. bind_err (collect ms) (\<lambda>xs. Inr (x # xs)))"

fun update_all :: "dict \<Rightarrow> (string \<times> pyval) list \<Rightarrow> dict" where
  "update_all d [] = d"
| "update_all d ((k, v) # kvs) = update_all (cfg_set d k v) kvs"

text \<open>
  \<^verbatim>\<open>sub in x\<close> for a string \<open>sub\<close>: a substring test on a string, a membership test on
  a list or on the keys of a mapping, TypeError on anything else.
\<close>

fun str_contains :: "string \<Rightarrow> string \<Rightarrow> bool" where
  "str_contains sub [] = (sub = [])"
| "str_contains sub (c # cs) = (prefix sub (c # cs) \<or> str_contains sub cs)"

fun py_contains :: "string \<Rightarrow> pyval \<Rightarrow> error + bool" where
  "py_contains sub (PStr s) = Inr (str_contains sub s)"
| "py_contains sub (PList xs) = Inr (PStr sub \<in> set xs)"
| "py_contains sub (PDict d) = Inr (KStr sub \<in> set (map fst d))"
| "py_contains sub _ = Inl TypeError"

text \<open>\<^verbatim>\<open>x[i]\<close> for an int \<open>i\<close>, and the elements that \<^verbatim>\<open>for b in x\<close> visits.\<close>

fun py_getitem_int :: "pyval \<Rightarrow> int \<Rightarrow> error + pyval" where
  "py_getitem_int (PList xs) i = list_index xs i"
| "py_getitem_int (PStr s) i = list_index (map (\<lambda>c. PStr [c]) s) i"
| "py_getitem_int (PDict d) i = (case map_of d (KInt i) of None \<Rightarrow> Inl (KeyError (KInt i)) | Some v \<Rightarrow> Inr v)"
| "py_getitem_int _ i = Inl TypeError"

fun key_value :: "pykey \<Rightarrow> pyval" where
  "key_value (KStr s) = PStr s"
| "key_value (KInt i) = PInt i"

fun py_iter :: "pyval \<Rightarrow> error + pyval list" where
  "py_iter (PList xs) = Inr xs"
| "py_iter (PStr s) = Inr (map (\<lambda>c. PStr [c]) s)"
| "py_iter (PDict d) = Inr (map (key_value \<circ> fst) d)"
| "py_iter _ = Inl TypeError"

text \<open>\<^verbatim>\<open>x > 1\<close>.\<close>

fun py_gt_one :: "pyval \<Rightarrow> error + bool" where
  "py_gt_one (PInt i) = Inr (1 < i)"
| "py_gt_one (PBool b) = Inr False"
| "py_gt_one (PFloat (Finite r)) = Inr (1 < r)"
| "py_gt_one (PFloat PosInf) = Inr True"
| "py_gt_one (PFloat _) = Inr False"
| "py_gt_one _ = Inl TypeError"

subsection \<open>The constructor up to buffer selection\<close>

text \<open>
  Lines 85 to 107. The four arguments are kept; the name, the print flag, the
  environment and the algorithm configuration are set up. \<^verbatim>\<open>ShowConfig\<close> only logs.
  The result is the agent so far, the model class and the policy mode.
\<close>

definition init_config ::
  "('e, 'm, 'b, 'k) externals \<Rightarrow> dict \<Rightarrow> dict \<Rightarrow> dict \<Rightarrow> dict \<Rightarrow>
     error + (('e, 'm) agent \<times> 'k \<times> string)" where
  "init_config X ea ma ba ta =
     bind_err (cfg_item ta ''name'') (\<lambda>nm.
     bind_err (cfg_item ta ''base_dir'') (\<lambda>bd.
     bind_err (x_path_join X bd nm) (\<lambda>joined.
     let ma1 = cfg_set ma ''base_dir'' joined in
     bind_err (x_make_env X ea) (\<lambda>e.
     bind_err (cfg_item ma1 ''algo'') (\<lambda>algo.
     bind_err (x_get_model_info X algo) (\<lambda>(k, aa, policy_mode, policy_type).
     let ta1 = cfg_set ta ''policy_mode'' (PStr policy_mode) in
     bind_err (cfg_item ma1 ''algo_config'') (\<lambda>ac.
     bind_err (if ac \<noteq> PNone then UpdateConfig (x_load_config X) aa ac ''algo'' else Inr aa) (\<lambda>aa1.
     bind_err (cfg_item ma1 ''use_rnn'') (\<lambda>ur.
     Inr (\<lparr>env_args = ea, model_args = ma1, buffer_args = ba, train_args = ta1,
            algo_args = cfg_set aa1 ''use_rnn'' ur, name = nm,
            allow_print = truthy (cfg_get_default ta ''allow_print'' (PBool False)),
            multi_agents_training = (policy_type = ''multi''), env = e,
            model = None, models = None, trace = []\<rparr>, k, policy_mode))))))))))"

subsection \<open>Building the buffer\<close>

text \<open>
  The statement before each call of \<^verbatim>\<open>get_buffer\<close> (lines 152, 195 and 237):
  \<^verbatim>\<open>if 'Nstep' in b['type'] or 'Episode' in b['type']: b[b['type']]['agents_num'] = rhs\<close>.
  The right-hand side is evaluated only in the branch, before the target; a type that
  is not a string cannot be a key.
\<close>

definition assign_agents_num :: "dict \<Rightarrow> (error + pyval) \<Rightarrow> error + dict" where
  "assign_agents_num b rhs =
     bind_err (cfg_item b ''type'') (\<lambda>ty.
     bind_err (py_contains ''Nstep'' ty) (\<lambda>c1.
     bind_err (if c1 then Inr True else py_contains ''Episode'' ty) (\<lambda>c.
     if c then
       bind_err rhs (\<lambda>v.
         case ty of PStr t \<Rightarrow> cfg_set_in b t ''agents_num'' v | _ \<Rightarrow> Inl TypeError)
     else Inr b)))"

text \<open>
  That statement followed by \<^verbatim>\<open>buffer = get_buffer(b)\<close>: the configuration as
  \<^verbatim>\<open>get_buffer\<close> received it, and the buffer.
\<close>

definition build_buffer ::
  "('e, 'm, 'b, 'k) externals \<Rightarrow> dict \<Rightarrow> (error + pyval) \<Rightarrow> error + (dict \<times> 'b)" where
  "build_buffer X b rhs =
     bind_err (assign_agents_num b rhs) (\<lambda>b'.
     bind_err (x_get_buffer X b') (\<lambda>buffer. Inr (b', buffer)))"

subsection \<open>Building the model\<close>

text \<open>
  \<^verbatim>\<open>Model(**algo_args)\<close>, \<^verbatim>\<open>set_buffer\<close>, \<^verbatim>\<open>init_or_restore\<close>; the path is
  evaluated when the third call is reached.
\<close>

definition new_model ::
  "('e, 'm, 'b, 'k) externals \<Rightarrow> 'k \<Rightarrow> dict \<Rightarrow> 'b \<Rightarrow> (error + pyval) \<Rightarrow> error + 'm" where
  "new_model X k aa buffer load_path =
     bind_err (x_Model X k aa) (\<lambda>m.
     bind_err (x_set_buffer X m buffer) (\<lambda>m1.
     bind_err load_path (\<lambda>p. x_init_or_restore X m1 p)))"

text \<open>The three assignments from \<^verbatim>\<open>get_init_training_info()\<close> to the training configuration.\<close>

definition record_training_info ::
  "('e, 'm, 'b, 'k) externals \<Rightarrow> 'm \<Rightarrow> dict \<Rightarrow> error + dict" where
  "record_training_info X m ta =
     bind_err (x_get_init_training_info X m) (\<lambda>info.
     bind_err (py_getitem_str info ''train_step'') (\<lambda>v1.
     bind_err (py_getitem_str info ''frame_step'') (\<lambda>v2.
     bind_err (py_getitem_str info ''episode'') (\<lambda>v3.
     Inr (cfg_set (cfg_set (cfg_set ta ''begin_train_step'' v1) ''begin_frame_step'' v2)
            ''begin_episode'' v3)))))"

text \<open>The dictionary of records that is saved, and the call of \<^verbatim>\<open>save_config\<close>.\<close>

definition records_dict :: "dict \<Rightarrow> dict \<Rightarrow> dict \<Rightarrow> dict \<Rightarrow> dict \<Rightarrow> pyval" where
  "records_dict ea ma ba ta aa =
     PDict [(KStr ''env'', PDict ea), (KStr ''model'', PDict ma), (KStr ''buffer'', PDict ba),
            (KStr ''train'', PDict ta), (KStr ''algo'', PDict aa)]"

definition save_records ::
  "('e, 'm, 'b, 'k) externals \<Rightarrow> dict \<Rightarrow> pyval \<Rightarrow> error + unit" where
  "save_records X ma records =
     bind_err (cfg_attr ma ''base_dir'') (\<lambda>bd.
     bind_err (x_path_join X bd (PStr ''config'')) (\<lambda>path.
     x_save_config X path records))"

subsection \<open>The constructor for a gym environment\<close>

text \<open>Lines 145 to 149, run when \<^verbatim>\<open>use_wandb\<close> is true.\<close>

definition wandb_start :: "('e, 'm, 'b, 'k) externals \<Rightarrow> ('e, 'm) agent \<Rightarrow> error + unit" where
  "wandb_start X s =
     bind_err (x_import_wandb X) (\<lambda>_.
     bind_err (cfg_attr (model_args s) ''base_dir'') (\<lambda>bd.
     bind_err (x_path_join X bd (PStr ''wandb'')) (\<lambda>wandb_path.
     bind_err (x_ensure_dir X wandb_path) (\<lambda>_.
     bind_err (cfg_item (train_args s) ''name'') (\<lambda>nm.
     bind_err (cfg_attr (model_args s) ''base_dir'') (\<lambda>dir.
     bind_err (cfg_item (train_args s) ''wandb_project'') (\<lambda>project.
     x_wandb_init X nm dir project)))))))"

text \<open>Lines 143 to 188.\<close>

definition init_gym ::
  "('e, 'm, 'b, 'k) externals \<Rightarrow> 'k \<Rightarrow> ('e, 'm) agent \<Rightarrow> error + ('e, 'm) agent" where
  "init_gym X k s =
     bind_err (cfg_item (train_args s) ''use_wandb'') (\<lambda>use_wandb.
     bind_err (if truthy use_wandb then wandb_start X s else Inr ()) (\<lambda>_.
     bind_err (build_buffer X (buffer_args s) (cfg_item (env_args s) ''env_num'')) (\<lambda>(b, buffer).
     bind_err (collect
        [x_env_attr X (env s) ''s_dim'', x_env_attr X (env s) ''visual_sources'',
         x_env_attr X (env s) ''visual_resolution'', x_env_attr X (env s) ''a_dim'',
         x_env_attr X (env s) ''is_continuous'', cfg_attr (train_args s) ''max_train_step'',
         cfg_attr (model_args s) ''base_dir'', cfg_attr (model_args s) ''seed'',
         x_env_attr X (env s) ''n'']) (\<lambda>vs.
     let aa = update_all (algo_args s)
        (zip [''s_dim'', ''visual_sources'', ''visual_resolution'', ''a_dim'', ''is_continuous'',
              ''max_train_step'', ''base_dir'', ''seed'', ''n_agents''] vs) in
     bind_err (new_model X k aa buffer (cfg_item (train_args s) ''load_model_path'')) (\<lambda>m.
     bind_err (record_training_info X m (train_args s)) (\<lambda>ta.
     bind_err (cfg_item ta ''inference'') (\<lambda>inference.
     let records = records_dict (env_args s) (model_args s) b ta aa in
     bind_err (if \<not> truthy inference then
                 bind_err (save_records X (model_args s) records) (\<lambda>_.
                 bind_err (cfg_item ta ''use_wandb'') (\<lambda>use_wandb2.
                 if truthy use_wandb2 then x_wandb_config_update X records else Inr ()))
               else Inr ()) (\<lambda>_.
     Inr (s\<lparr>buffer_args := b, algo_args := aa, train_args := ta, model := Some m,
            trace := trace s @ [GetBuffer b, SetBuffer]\<rparr>)))))))))"

subsection \<open>The constructor for Unity with a multi-agent algorithm\<close>

text \<open>Lines 191 to 228.\<close>

definition init_ma_unity ::
  "('e, 'm, 'b, 'k) externals \<Rightarrow> 'k \<Rightarrow> ('e, 'm) agent \<Rightarrow> error + ('e, 'm) agent" where
  "init_ma_unity X k s =
     bind_err (x_env_attr X (env s) ''brain_num'') (\<lambda>brain_num.
     bind_err (py_gt_one brain_num) (\<lambda>ok.
     if \<not> ok then Inl AssertionError else
     bind_err (build_buffer X (buffer_args s) (cfg_item (env_args s) ''env_num'')) (\<lambda>(b, buffer).
     bind_err (collect
        [x_env_attr X (env s) ''s_dim'', x_env_attr X (env s) ''a_dim'',
         x_env_attr X (env s) ''visual_sources'', x_env_attr X (env s) ''visual_resolutions'',
         x_env_attr X (env s) ''is_continuous'', cfg_attr (train_args s) ''max_train_step'',
         cfg_attr (model_args s) ''base_dir'', cfg_attr (model_args s) ''seed'',
         x_env_attr X (env s) ''brain_agents'', x_env_attr X (env s) ''brain_controls'']) (\<lambda>vs.
     let aa = update_all (algo_args s)
        (zip [''s_dim'', ''a_dim'', ''visual_sources'', ''visual_resolution'', ''is_continuous'',
              ''max_train_step'', ''base_dir'', ''seed'', ''n_agents'', ''brain_controls''] vs) in
     bind_err (new_model X k aa buffer (cfg_item (train_args s) ''load_model_path'')) (\<lambda>m.
     bind_err (record_training_info X m (train_args s)) (\<lambda>ta.
     bind_err (cfg_item ta ''inference'') (\<lambda>inference.
     bind_err (if \<not> truthy inference
               then save_records X (model_args s) (records_dict (env_args s) (model_args s) b ta aa)
               else Inr ()) (\<lambda>_.
     Inr (s\<lparr>buffer_args := b, algo_args := aa, train_args := ta, model := Some m,
            trace := trace s @ [GetBuffer b, SetBuffer]\<rparr>)))))))))"

subsection \<open>The constructor for Unity with a single-agent algorithm\<close>

text \<open>
  Lines 231 to 272: one model and one buffer for each brain. The three configurations
  are copied for each brain, so the agent's own buffer, model and algorithm
  configurations stay as they are; its training configuration is written for the
  first brain.
\<close>

definition env_attr_at ::
  "('e, 'm, 'b, 'k) externals \<Rightarrow> 'e \<Rightarrow> string \<Rightarrow> nat \<Rightarrow> error + pyval" where
  "env_attr_at X e a i = bind_err (x_env_attr X e a) (\<lambda>v. py_getitem_int v (int i))"

definition init_brain ::
  "('e, 'm, 'b, 'k) externals \<Rightarrow> 'k \<Rightarrow> ('e, 'm) agent \<Rightarrow> nat \<Rightarrow> pyval \<Rightarrow> error + ('e, 'm) agent" where
  "init_brain X k s i b =
     bind_err (cfg_attr (model_args s) ''base_dir'') (\<lambda>bd.
     bind_err (x_path_join X bd b) (\<lambda>joined.
     let margs = cfg_set (model_args s) ''base_dir'' joined in
     bind_err (cfg_item (train_args s) ''load_model_path'') (\<lambda>lmp.
     bind_err (if \<not> truthy lmp then cfg_item (train_args s) ''load_model_path''
               else bind_err (cfg_item (train_args s) ''load_model_path'') (\<lambda>p. x_path_join X p b))
        (\<lambda>load_model_path.
     bind_err (build_buffer X (buffer_args s) (env_attr_at X (env s) ''brain_agents'' i)) (\<lambda>(bargs, buffer).
     bind_err (cfg_item margs ''seed'') (\<lambda>seed.
     bind_err (x_add X seed (PInt (int i * 10))) (\<lambda>seed'.
     let margs2 = cfg_set margs ''seed'' seed' in
     bind_err (collect
        [env_attr_at X (env s) ''s_dim'' i, env_attr_at X (env s) ''a_dim'' i,
         env_attr_at X (env s) ''visual_sources'' i, env_attr_at X (env s) ''visual_resolutions'' i,
         env_attr_at X (env s) ''is_continuous'' i, cfg_attr (train_args s) ''max_train_step'',
         cfg_attr margs2 ''base_dir'', cfg_attr margs2 ''seed'',
         env_attr_at X (env s) ''brain_agents'' i]) (\<lambda>vs.
     let aargs = update_all (algo_args s)
        (zip [''s_dim'', ''a_dim'', ''visual_sources'', ''visual_resolution'', ''is_continuous'',
              ''max_train_step'', ''base_dir'', ''seed'', ''n_agents''] vs) in
     bind_err (new_model X k aargs buffer (Inr load_model_path)) (\<lambda>m.
     bind_err (if i = 0 then record_training_info X m (train_args s) else Inr (train_args s)) (\<lambda>ta.
     bind_err (cfg_item ta ''inference'') (\<lambda>inference.
     bind_err (if \<not> truthy inference
               then save_records X margs2 (records_dict (env_args s) margs2 bargs ta aargs)
               else Inr ()) (\<lambda>_.
     Inr (s\<lparr>train_args := ta,
            models := Some (case models s of None \<Rightarrow> [m] | Some ms \<Rightarrow> ms @ [m]),
            trace := trace s @ [GetBuffer bargs, SetBuffer]\<rparr>)))))))))))))"

fun init_brains ::
  "('e, 'm, 'b, 'k) externals \<Rightarrow> 'k \<Rightarrow> ('e, 'm) agent \<Rightarrow> nat \<Rightarrow> pyval list \<Rightarrow> error + ('e, 'm) agent" where
  "init_brains X k s i [] = Inr s"
| "init_brains X k s i (b # bs) = bind_err (init_brain X k s i b) (\<lambda>s'. init_brains X k s' (Suc i) bs)"

definition init_unity ::
  "('e, 'm, 'b, 'k) externals \<Rightarrow> 'k \<Rightarrow> ('e, 'm) agent \<Rightarrow> error + ('e, 'm) agent" where
  "init_unity X k s =
     bind_err (x_env_attr X (env s) ''fixed_brain_names'') (\<lambda>names.
     bind_err (py_iter names) (\<lambda>bs. init_brains X k (s\<lparr>models := Some []\<rparr>) 0 bs))"

subsection \<open>The constructor\<close>

text \<open>\<^verbatim>\<open>Agent.__init__(env_args, model_args, buffer_args, train_args)\<close>.\<close>

definition agent_init ::
  "('e, 'm, 'b, 'k) externals \<Rightarrow> dict \<Rightarrow> dict \<Rightarrow> dict \<Rightarrow> dict \<Rightarrow> error + ('e, 'm) agent" where
  "agent_init X ea ma ba ta =
     bind_err (init_config X ea ma ba ta) (\<lambda>(s1, k, policy_mode).
     bind_err (select_buffer (x_pow X) policy_mode s1) (\<lambda>s2.
     bind_err (cfg_item (env_args s2) ''type'') (\<lambda>env_type.
     if env_type = PStr ''gym'' then init_gym X k s2
     else if multi_agents_training s2 then init_ma_unity X k s2
     else init_unity X k s2)))"

text \<open>The exceptions of a failed subscript: a missing key, or a value that is not a mapping.\<close>

fun is_lookup_error :: "error \<Rightarrow> bool" where
  "is_lookup_error (KeyError k) = True"
| "is_lookup_error TypeError = True"
| "is_lookup_error _ = False"

section \<open>Agent.train and Agent.evaluate\<close>

text \<open>
  The training and inference loops are not part of the module. Each receives the
  environment and the model (or the list of models) with arguments read from the
  training configuration, works on them in place, and returns or raises: it is a
  parameter that gives the environment and the models as it left them, and the
  exception if it raised. \<^verbatim>\<open>print_func\<close> only logs. \<^verbatim>\<open>int\<close> and \<^verbatim>\<open>str\<close> are the
  builtins.
\<close>

record ('e, 'm) trainers =
  t_gym_no_op :: "'e \<Rightarrow> 'm \<Rightarrow> pyval list \<Rightarrow> ('e \<times> 'm) \<times> error option"
  t_gym_train :: "'e \<Rightarrow> 'm \<Rightarrow> pyval list \<Rightarrow> ('e \<times> 'm) \<times> error option"
  t_ma_unity_no_op :: "'e \<Rightarrow> 'm \<Rightarrow> pyval list \<Rightarrow> ('e \<times> 'm) \<times> error option"
  t_ma_unity_train :: "'e \<Rightarrow> 'm \<Rightarrow> pyval list \<Rightarrow> ('e \<times> 'm) \<times> error option"
  t_unity_no_op :: "'e \<Rightarrow> 'm list \<Rightarrow> pyval list \<Rightarrow> ('e \<times> 'm list) \<times> error option"
  t_unity_train :: "'e \<Rightarrow> 'm list \<Rightarrow> pyval list \<Rightarrow> ('e \<times> 'm list) \<times> error option"
  t_gym_inference :: "'e \<Rightarrow> 'm \<Rightarrow> pyval list \<Rightarrow> ('e \<times> 'm) \<times> error option"
  t_ma_unity_inference :: "'e \<Rightarrow> 'm \<Rightarrow> pyval list \<Rightarrow> ('e \<times> 'm) \<times> error option"
  t_unity_inference :: "'e \<Rightarrow> 'm list \<Rightarrow> pyval list \<Rightarrow> ('e \<times> 'm list) \<times> error option"
  t_model_close :: "'m \<Rightarrow> 'm \<times> error option"
  t_env_close :: "'e \<Rightarrow> 'e \<times> error option"
  t_int :: "pyval \<Rightarrow> error + pyval"
  t_str :: "pyval \<Rightarrow> error + pyval"

text \<open>
  A keyword argument \<^verbatim>\<open>int(train_args[k])\<close>, \<^verbatim>\<open>bool(train_args[k])\<close>,
  \<^verbatim>\<open>str(train_args[k])\<close>, \<^verbatim>\<open>int(train_args.get(k, d))\<close> or \<^verbatim>\<open>train_args[k]\<close>; the
  arguments of a call are evaluated from left to right.
\<close>

datatype conv = AsInt | AsBool | AsStr | AsIntOr pyval | AsIs

fun eval_arg :: "('e, 'm) trainers \<Rightarrow> dict \<Rightarrow> string \<times> conv \<Rightarrow> error + pyval" where
  "eval_arg T ta (k, AsInt) = bind_err (cfg_item ta k) (t_int T)"
| "eval_arg T ta (k, AsBool) = bind_err (cfg_item ta k) (\<lambda>v. Inr (PBool (truthy v)))"
| "eval_arg T ta (k, AsStr) = bind_err (cfg_item ta k) (t_str T)"
| "eval_arg T ta (k, AsIntOr d) = t_int T (cfg_get_default ta k d)"
| "eval_arg T ta (k, AsIs) = cfg_item ta k"

definition eval_args :: "('e, 'm) trainers \<Rightarrow> dict \<Rightarrow> (string \<times> conv) list \<Rightarrow> error + pyval list" where
  "eval_args T ta specs = collect (map (eval_arg T ta) specs)"

definition no_op_args :: "(string \<times> conv) list" where
  "no_op_args = [(''pre_fill_steps'', AsInt), (''prefill_choose'', AsBool)]"

definition unity_no_op_args :: "(string \<times> conv) list" where
  "unity_no_op_args = [(''pre_fill_steps'', AsInt), (''prefill_choose'', AsBool), (''real_done'', AsBool)]"

definition gym_train_args :: "(string \<times> conv) list" where
  "gym_train_args =
     [(''begin_train_step'', AsInt), (''begin_frame_step'', AsInt), (''begin_episode'', AsInt),
      (''render'', AsBool), (''render_episode'', AsIntOr (PInt 50000)), (''save_frequency'', AsInt),
      (''max_step_per_episode'', AsInt), (''max_train_episode'', AsInt), (''eval_while_train'', AsBool),
      (''max_eval_episode'', AsInt), (''off_policy_step_eval_episodes'', AsInt),
      (''off_policy_train_interval'', AsInt), (''policy_mode'', AsStr),
      (''moving_average_episode'', AsInt), (''add_noise2buffer'', AsBool),
      (''add_noise2buffer_episode_interval'', AsInt), (''add_noise2buffer_steps'', AsInt),
      (''off_policy_eval_interval'', AsInt), (''max_train_step'', AsInt), (''max_frame_step'', AsInt)]"

definition ma_unity_train_args :: "(string \<times> conv) list" where
  "ma_unity_train_args =
     [(''begin_train_step'', AsInt), (''begin_frame_step'', AsInt), (''begin_episode'', AsInt),
      (''save_frequency'', AsInt), (''max_step_per_episode'', AsInt), (''max_train_step'', AsInt),
      (''max_frame_step'', AsInt), (''max_train_episode'', AsInt), (''policy_mode'', AsStr),
      (''moving_average_episode'', AsInt), (''real_done'', AsBool),
      (''off_policy_train_interval'', AsInt)]"

definition unity_train_args :: "(string \<times> conv) list" where
  "unity_train_args =
     [(''begin_train_step'', AsInt), (''begin_frame_step'', AsInt), (''begin_episode'', AsInt),
      (''save_frequency'', AsInt), (''max_step_per_episode'', AsInt), (''max_train_episode'', AsInt),
      (''policy_mode'', AsStr), (''moving_average_episode'', AsInt), (''add_noise2buffer'', AsBool),
      (''add_noise2buffer_episode_interval'', AsInt), (''add_noise2buffer_steps'', AsInt),
      (''max_train_step'', AsInt), (''max_frame_step'', AsInt), (''real_done'', AsBool),
      (''off_policy_train_interval'', AsInt)]"

text \<open>
  The body of a \<^verbatim>\<open>try\<close>: the no-op phase, then training; the first exception, of an
  argument or of a call, ends the body.
\<close>

definition train_body ::
  "('e \<Rightarrow> 'x \<Rightarrow> pyval list \<Rightarrow> ('e \<times> 'x) \<times> error option) \<Rightarrow> (error + pyval list) \<Rightarrow>
   ('e \<Rightarrow> 'x \<Rightarrow> pyval list \<Rightarrow> ('e \<times> 'x) \<times> error option) \<Rightarrow> (error + pyval list) \<Rightarrow>
   'e \<Rightarrow> 'x \<Rightarrow> ('e \<times> 'x) \<times> error option" where
  "train_body no_op args1 training args2 e x =
     (case args1 of
        Inl err \<Rightarrow> ((e, x), Some err)
      | Inr a1 \<Rightarrow>
          (case no_op e x a1 of
             (ex1, Some err) \<Rightarrow> (ex1, Some err)
           | ((e1, x1), None) \<Rightarrow>
               (case args2 of
                  Inl err \<Rightarrow> ((e1, x1), Some err)
                | Inr a2 \<Rightarrow> training e1 x1 a2)))"

text \<open>
  The \<^verbatim>\<open>finally\<close> clauses: the model, or each model in turn, is closed, then the
  environment. An exception raised here replaces the pending one and skips the rest;
  otherwise the pending exception of the body, if any, is raised again.
\<close>

fun close_models :: "('e, 'm) trainers \<Rightarrow> 'm list \<Rightarrow> 'm list \<times> error option" where
  "close_models T [] = ([], None)"
| "close_models T (m # ms) =
     (case t_model_close T m of
        (m1, Some err) \<Rightarrow> (m1 # ms, Some err)
      | (m1, None) \<Rightarrow> (case close_models T ms of (ms1, r) \<Rightarrow> (m1 # ms1, r)))"

definition finally_close ::
  "('e, 'm) trainers \<Rightarrow> ('x \<Rightarrow> 'x \<times> error option) \<Rightarrow> ('e \<times> 'x) \<times> error option \<Rightarrow>
   ('e \<times> 'x) \<times> error option" where
  "finally_close T close r =
     (case r of ((e, x), pending) \<Rightarrow>
        (case close x of
           (x1, Some err) \<Rightarrow> ((e, x1), Some err)
         | (x1, None) \<Rightarrow>
             (case t_env_close T e of
                (e1, Some err) \<Rightarrow> ((e1, x1), Some err)
              | (e1, None) \<Rightarrow> ((e1, x1), pending))))"

text \<open>
  \<^verbatim>\<open>Agent.train()\<close>: the agent afterwards, and the exception if one was raised. Where
  \<^verbatim>\<open>self.model\<close> (or \<^verbatim>\<open>self.models\<close>) does not exist, the first call raises
  AttributeError while its arguments are evaluated, and so does the \<^verbatim>\<open>finally\<close>
  clause.
\<close>

definition train :: "('e, 'm) trainers \<Rightarrow> ('e, 'm) agent \<Rightarrow> ('e, 'm) agent \<times> error option" where
  "train T s =
     (case cfg_item (env_args s) ''type'' of
        Inl err \<Rightarrow> (s, Some err)
      | Inr env_type \<Rightarrow>
          if env_type = PStr ''gym'' then
            (case model s of
               None \<Rightarrow> (s, Some (AttributeError ''model''))
             | Some m \<Rightarrow>
                 (case finally_close T (t_model_close T)
                         (train_body (t_gym_no_op T) (eval_args T (train_args s) no_op_args)
                            (t_gym_train T) (eval_args T (train_args s) gym_train_args) (env s) m) of
                    ((e1, m1), r) \<Rightarrow> (s\<lparr>env := e1, model := Some m1\<rparr>, r)))
          else if multi_agents_training s then
            (case model s of
               None \<Rightarrow> (s, Some (AttributeError ''model''))
             | Some m \<Rightarrow>
                 (case finally_close T (t_model_close T)
                         (train_body (t_ma_unity_no_op T) (eval_args T (train_args s) unity_no_op_args)
                            (t_ma_unity_train T) (eval_args T (train_args s) ma_unity_train_args) (env s) m) of
                    ((e1, m1), r) \<Rightarrow> (s\<lparr>env := e1, model := Some m1\<rparr>, r)))
          else
            (case models s of
               None \<Rightarrow> (s, Some (AttributeError ''models''))
             | Some ms \<Rightarrow>
                 (case finally_close T (close_models T)
                         (train_body (t_unity_no_op T) (eval_args T (train_args s) unity_no_op_args)
                            (t_unity_train T) (eval_args T (train_args s) unity_train_args) (env s) ms) of
                    ((e1, ms1), r) \<Rightarrow> (s\<lparr>env := e1, models := Some ms1\<rparr>, r))))"

text \<open>\<^verbatim>\<open>Agent.evaluate()\<close>.\<close>

definition inference ::
  "('e \<Rightarrow> 'x \<Rightarrow> pyval list \<Rightarrow> ('e \<times> 'x) \<times> error option) \<Rightarrow> (error + pyval list) \<Rightarrow>
   'e \<Rightarrow> 'x \<Rightarrow> ('e \<times> 'x) \<times> error option" where
  "inference f args e x = (case args of Inl err \<Rightarrow> ((e, x), Some err) | Inr a \<Rightarrow> f e x a)"

definition evaluate :: "('e, 'm) trainers \<Rightarrow> ('e, 'm) agent \<Rightarrow> ('e, 'm) agent \<times> error option" where
  "evaluate T s =
     (case cfg_item (env_args s) ''type'' of
        Inl err \<Rightarrow> (s, Some err)
      | Inr env_type \<Rightarrow>
          if env_type = PStr ''gym'' then
            (case model s of
               None \<Rightarrow> (s, Some (AttributeError ''model''))
             | Some m \<Rightarrow>
                 (case inference (t_gym_inference T)
                         (eval_args T (train_args s) [(''inference_episode'', AsIs)]) (env s) m of
                    ((e1, m1), r) \<Rightarrow> (s\<lparr>env := e1, model := Some m1\<rparr>, r)))
          else if multi_agents_training s then
            (case model s of
               None \<Rightarrow> (s, Some (AttributeError ''model''))
             | Some m \<Rightarrow>
                 (case inference (t_ma_unity_inference T)
                         (eval_args T (train_args s) [(''inference_episode'', AsIs)]) (env s) m of
                    ((e1, m1), r) \<Rightarrow> (s\<lparr>env := e1, model := Some m1\<rparr>, r)))
          else
            (case models s of
               None \<Rightarrow> (s, Some (AttributeError ''models''))
             | Some ms \<Rightarrow>
                 (case inference (t_unity_inference T)
                         (eval_args T (train_args s) [(''inference_episode'', AsIs)]) (env s) ms of
                    ((e1, ms1), r) \<Rightarrow> (s\<lparr>env := e1, models := Some ms1\<rparr>, r))))"

text \<open>
  What the agent has to rely on: \<open>variant\<close> is any observation of a model, such as
  the variant of the buffer it holds; the collaborators keep it when every one of them
  returns models with the observation they had.
\<close>

definition keeps_variant :: "('e, 'm) trainers \<Rightarrow> ('m \<Rightarrow> 'v) \<Rightarrow> bool" where
  "keeps_variant T variant \<longleftrightarrow>
     (\<forall>e m a. variant (snd (fst (t_gym_no_op T e m a))) = variant m)
   \<and> (\<forall>e m a. variant (snd (fst (t_gym_train T e m a))) = variant m)
   \<and> (\<forall>e m a. variant (snd (fst (t_ma_unity_no_op T e m a))) = variant m)
   \<and> (\<forall>e m a. variant (snd (fst (t_ma_unity_train T e m a))) = variant m)
   \<and> (\<forall>e ms a. map variant (snd (fst (t_unity_no_op T e ms a))) = map variant ms)
   \<and> (\<forall>e ms a. map variant (snd (fst (t_unity_train T e ms a))) = map variant ms)
   \<and> (\<forall>e m a. variant (snd (fst (t_gym_inference T e m a))) = variant m)
   \<and> (\<forall>e m a. variant (snd (fst (t_ma_unity_inference T e m a))) = variant m)
   \<and> (\<forall>e ms a. map variant (snd (fst (t_unity_inference T e ms a))) = map variant ms)
   \<and> (\<forall>m. variant (fst (t_model_close T m)) = variant m)"

section \<open>Agent.run\<close>

text \<open>
  \<^verbatim>\<open>Agent.run(mode)\<close>. The names \<^verbatim>\<open>ApexWorker\<close>, \<^verbatim>\<open>ApexLearner\<close> and
  \<^verbatim>\<open>ApexBuffer\<close> are neither imported nor defined in the module, so evaluating any of
  them raises NameError before the arguments are looked at. No branch changes the
  agent.
\<close>

definition run :: "string \<Rightarrow> ('e, 'm) agent \<Rightarrow> ('e, 'm) agent \<times> error option" where
  "run mode s =
     (if mode = ''worker'' then (s, Some (NameError ''ApexWorker''))
      else if mode = ''learner'' then (s, Some (NameError ''ApexLearner''))
      else if mode = ''buffer'' then (s, Some (NameError ''ApexBuffer''))
      else (s, Some (Exception ''unknown mode'')))"

section \<open>Example inputs\<close>

text \<open>
  A stand-in for \<^verbatim>\<open>pow\<close> on ints with a non-negative exponent, where Python's
  result is exact, and an agent with given buffer, training and algorithm configurations.
\<close>

definition int_pow :: "pyval \<Rightarrow> pyval \<Rightarrow> error + pyval" where
  "int_pow x y =
     (case (x, y) of
        (PInt a, PInt b) \<Rightarrow> if 0 \<le> b then Inr (PInt (a ^ nat b)) else Inl TypeError
      | _ \<Rightarrow> Inl TypeError)"

definition example_agent :: "dict \<Rightarrow> dict \<Rightarrow> dict \<Rightarrow> (unit, unit) agent" where
  "example_agent bargs targs aargs =
     \<lparr>env_args = [], model_args = [], buffer_args = bargs, train_args = targs, algo_args = aargs,
      name = PStr ''a'', allow_print = False, multi_agents_training = False, env = (),
      model = None, models = None, trace = []\<rparr>"

text \<open>
  Collaborators that always succeed: the algorithm registry knows one off-policy
  n-step algorithm, \<^verbatim>\<open>get_buffer\<close> returns the configuration it received, the
  environment has two brains.
\<close>

definition example_ext :: "(unit, unit, dict, unit) externals" where
  "example_ext =
     \<lparr>x_make_env = (\<lambda>ea. Inr ()),
      x_get_model_info = (\<lambda>algo. Inr ((), [(KStr ''gamma'', PInt 1), (KStr ''n_step'', PBool True)],
                                       ''off-policy'', ''single'')),
      x_load_config = (\<lambda>path. Inl (External ''no such file'')),
      x_path_join = (\<lambda>a b. Inr b),
      x_pow = int_pow,
      x_add = (\<lambda>a b. Inr a),
      x_get_buffer = (\<lambda>b. Inr b),
      x_env_attr = (\<lambda>e a. if a = ''fixed_brain_names'' then Inr (PList [PStr ''b0'', PStr ''b1''])
                            else Inr (PList [PInt 2, PInt 3])),
      x_Model = (\<lambda>k aa. Inr ()),
      x_set_buffer = (\<lambda>m b. Inr ()),
      x_init_or_restore = (\<lambda>m p. Inr ()),
      x_get_init_training_info = (\<lambda>m. Inr (PDict [(KStr ''train_step'', PInt 0),
                                     (KStr ''frame_step'', PInt 0), (KStr ''episode'', PInt 0)])),
      x_save_config = (\<lambda>p r. Inr ()),
      x_import_wandb = Inr (),
      x_ensure_dir = (\<lambda>p. Inr ()),
      x_wandb_init = (\<lambda>n d p. Inr ()),
      x_wandb_config_update = (\<lambda>r. Inr ())\<rparr>"

definition example_model_args :: dict where
  "example_model_args = [(KStr ''algo'', PStr ''dqn''), (KStr ''algo_config'', PNone),
                         (KStr ''use_rnn'', PBool False), (KStr ''seed'', PInt 0)]"

definition example_train_args :: dict where
  "example_train_args = [(KStr ''name'', PStr ''run''), (KStr ''base_dir'', PStr ''out''),
                         (KStr ''use_wandb'', PBool False), (KStr ''max_train_step'', PInt 10),
                         (KStr ''load_model_path'', PNone), (KStr ''inference'', PBool True)]"

text \<open>
  Training and inference loops that return at once, leaving the environment and the
  models as they are, and a constructed gym agent whose model holds an NstepER buffer.
\<close>

definition example_trainers :: "(unit, string) trainers" where
  "example_trainers =
     \<lparr>t_gym_no_op = (\<lambda>e m a. ((e, m), None)),
      t_gym_train = (\<lambda>e m a. ((e, m), None)),
      t_ma_unity_no_op = (\<lambda>e m a. ((e, m), None)),
      t_ma_unity_train = (\<lambda>e m a. ((e, m), None)),
      t_unity_no_op = (\<lambda>e ms a. ((e, ms), None)),
      t_unity_train = (\<lambda>e ms a. ((e, ms), None)),
      t_gym_inference = (\<lambda>e m a. ((e, m), None)),
      t_ma_unity_inference = (\<lambda>e m a. ((e, m), None)),
      t_unity_inference = (\<lambda>e ms a. ((e, ms), None)),
      t_model_close = (\<lambda>m. (m, None)),
      t_env_close = (\<lambda>e. (e, None)),
      t_int = (\<lambda>v. Inr v),
      t_str = (\<lambda>v. Inr v)\<rparr>"

definition example_gym_agent :: "(unit, string) agent" where
  "example_gym_agent =
     \<lparr>env_args = [(KStr ''type'', PStr ''gym'')], model_args = [],
      buffer_args = [(KStr ''type'', PStr ''NstepER'')],
      train_args = [(KStr ''inference_episode'', PInt 3)], algo_args = [],
      name = PStr ''a'', allow_print = False, multi_agents_training = False, env = (),
      model = Some ''NstepER'', models = None, trace = [GetBuffer [], SetBuffer]\<rparr>"

text \<open>The same collaborators with a registry that returns a given algorithm configuration.\<close>

definition example_registry :: "dict \<Rightarrow> (unit, unit, dict, unit) externals" where
  "example_registry aa = example_ext\<lparr>x_get_model_info := (\<lambda>algo. Inr ((), aa, ''off-policy'', ''single''))\<rparr>"

lemmas init_defs =
  agent_init_def init_config_def init_gym_def init_ma_unity_def init_unity_def init_brain_def
  build_buffer_def assign_agents_num_def new_model_def record_training_info_def
  env_attr_at_def cfg_attr_def list_index_def example_ext_def example_model_args_def
  example_train_args_def

lemmas example_defs =
  select_buffer_def select_transition_def select_nstep_per_def select_nstep_er_def select_per_def
  select_episode_def bind_err_def cfg_item_def cfg_get_def cfg_get_default_def cfg_set_def
  cfg_set_in_def cfg_item_in_def section_get_def example_agent_def int_pow_def Let_def

section \<open>Properties of UpdateConfig\<close>

lemma update_from_dict_total:
  "set keys \<subseteq> fst ` set key_values \<Longrightarrow> \<exists>c. update_from_dict key_values keys config = Inr c"
proof (induction keys arbitrary: config)
  case Nil
  then show ?case by simp
next
  case (Cons key keys)
  from Cons.prems have "key \<in> fst ` set key_values" by simp
  then obtain v where v: "map_of key_values key = Some v"
    by (metis domD dom_map_of_conv_image_fst)
  from Cons.prems have "set keys \<subseteq> fst ` set key_values" by simp
  from Cons.IH [OF this] show ?case by (simp add: v)
qed

lemma update_from_dict_lookup:
  "update_from_dict key_values keys config = Inr c \<Longrightarrow>
   map_of c k = (if k \<in> set keys then map_of key_values k else map_of config k)"
proof (induction keys arbitrary: config)
  case Nil
  then show ?case by simp
next
  case (Cons key keys)
  from Cons.prems obtain v where v: "map_of key_values key = Some v"
    and rest: "update_from_dict key_values keys (AList.update key v config) = Inr c"
    by (auto split: option.splits)
  from Cons.IH [OF rest] show ?case
    by (auto simp: update_conv' v)
qed

lemma update_from_dict_keys:
  "update_from_dict key_values keys config = Inr c \<Longrightarrow>
   fst ` set c = fst ` set config \<union> set keys"
proof (induction keys arbitrary: config)
  case Nil
  then show ?case by simp
next
  case (Cons key keys)
  from Cons.prems obtain v where v: "map_of key_values key = Some v"
    and rest: "update_from_dict key_values keys (AList.update key v config) = Inr c"
    by (auto split: option.splits)
  from Cons.IH [OF rest] show ?case
    by (auto simp: dom_update)
qed

text \<open>
  C9. When the loaded content is a mapping whose \<open>key_name\<close> section is a mapping,
  UpdateConfig returns the dictionary with every key of the section set to the
  section's value and every other key as it was; the keys of the result are the old
  keys and the section's keys.
\<close>

theorem UpdateConfig_overwrites_section:
  assumes "load_config file_path = Inr (PDict content)"
    and "cfg_get content key_name = Some (PDict key_values)"
  shows "\<exists>config'. UpdateConfig load_config config file_path key_name = Inr config'
           \<and> (\<forall>k. map_of config' k =
                 (case map_of key_values k of Some v \<Rightarrow> Some v | None \<Rightarrow> map_of config k))
           \<and> fst ` set config' = fst ` set config \<union> fst ` set key_values"
proof -
  obtain c where c: "update_from_dict key_values (map fst key_values) config = Inr c"
    using update_from_dict_total [of "map fst key_values" key_values config] by auto
  have run: "UpdateConfig load_config config file_path key_name = Inr c"
    using assms c by (simp add: UpdateConfig_def cfg_item_def)
  have look: "map_of c k = (case map_of key_values k of Some v \<Rightarrow> Some v | None \<Rightarrow> map_of config k)"
    for k
  proof (cases "map_of key_values k")
    case None
    then have "k \<notin> set (map fst key_values)"
      by (metis domIff dom_map_of_conv_image_fst set_map)
    with update_from_dict_lookup [OF c, of k] None show ?thesis by simp
  next
    case (Some v)
    then have "k \<in> set (map fst key_values)"
      by (metis domI dom_map_of_conv_image_fst set_map)
    with update_from_dict_lookup [OF c, of k] Some show ?thesis by simp
  qed
  have keys: "fst ` set c = fst ` set config \<union> fst ` set key_values"
    using update_from_dict_keys [OF c] by simp
  from run look keys show ?thesis by blast
qed

theorem UpdateConfig_overwrites_section_witness:
  "\<exists>config'. UpdateConfig (\<lambda>p. Inr (PDict [(KStr ''algo'', PDict [(KStr ''gamma'', PInt 1), (KStr ''lr'', PInt 3)])]))
       [(KStr ''gamma'', PInt 0), (KStr ''tau'', PInt 2)] ''a.yaml'' ''algo'' = Inr config'
     \<and> map_of config' (KStr ''gamma'') = Some (PInt 1)
     \<and> map_of config' (KStr ''tau'') = Some (PInt 2)
     \<and> map_of config' (KStr ''lr'') = Some (PInt 3)"
proof -
  let ?lc = "\<lambda>p::string. (Inr (PDict [(KStr ''algo'', PDict [(KStr ''gamma'', PInt 1), (KStr ''lr'', PInt 3)])]) :: error + pyval)"
  have a: "?lc ''a.yaml'' = Inr (PDict [(KStr ''algo'', PDict [(KStr ''gamma'', PInt 1), (KStr ''lr'', PInt 3)])])"
    by simp
  have b: "cfg_get [(KStr ''algo'', PDict [(KStr ''gamma'', PInt 1), (KStr ''lr'', PInt 3)])] ''algo''
      = Some (PDict [(KStr ''gamma'', PInt 1), (KStr ''lr'', PInt 3)])"
    by (simp add: cfg_get_def)
  from UpdateConfig_overwrites_section [of ?lc "''a.yaml''", OF a b,
      of "[(KStr ''gamma'', PInt 0), (KStr ''tau'', PInt 2)]"]
  obtain config' where r: "UpdateConfig ?lc [(KStr ''gamma'', PInt 0), (KStr ''tau'', PInt 2)] ''a.yaml'' ''algo'' = Inr config'"
    and l: "\<forall>k. map_of config' k =
       (case map_of [(KStr ''gamma'', PInt 1), (KStr ''lr'', PInt 3)] k of Some v \<Rightarrow> Some v
        | None \<Rightarrow> map_of [(KStr ''gamma'', PInt 0), (KStr ''tau'', PInt 2)] k)"
    by blast
  from l have "map_of config' (KStr ''gamma'') = Some (PInt 1)"
    and "map_of config' (KStr ''tau'') = Some (PInt 2)"
    and "map_of config' (KStr ''lr'') = Some (PInt 3)"
    by simp_all
  with r show ?thesis by blast
qed

section \<open>Properties of Agent.run\<close>

text \<open>
  C10. For every mode string other than 'worker', 'learner' and 'buffer', Agent.run
  raises the exception 'unknown mode' and leaves the agent as it was.
\<close>

theorem run_unknown_mode_raises:
  "mode \<notin> {''worker'', ''learner'', ''buffer''} \<Longrightarrow> run mode s = (s, Some (Exception ''unknown mode''))"
  by (simp add: run_def)

theorem run_unknown_mode_raises_witness:
  "''train'' \<notin> {''worker'', ''learner'', ''buffer''}
   \<and> run ''train'' (example_agent [] [] []) = (example_agent [] [] [], Some (Exception ''unknown mode''))"
  using run_unknown_mode_raises [of "''train''" "example_agent [] [] []"] by simp

section \<open>Properties of buffer selection\<close>

subsection \<open>Dictionary reads after writes\<close>

lemma cfg_get_set: "cfg_get (cfg_set d k v) k' = (if k' = k then Some v else cfg_get d k')"
  by (simp add: cfg_get_def cfg_set_def update_conv')

lemma cfg_set_twice: "cfg_set (cfg_set d k v) k w = cfg_set d k w"
  by (simp add: cfg_set_def)

lemma bind_err_Inr_iff: "bind_err m f = Inr y \<longleftrightarrow> (\<exists>x. m = Inr x \<and> f x = Inr y)"
  by (cases m) (simp_all add: bind_err_def)

lemma bind_err_Inl_iff: "bind_err m f = Inl e \<longleftrightarrow> m = Inl e \<or> (\<exists>x. m = Inr x \<and> f x = Inl e)"
  by (cases m) (simp_all add: bind_err_def)

lemma cfg_item_Inr_iff: "cfg_item d k = Inr v \<longleftrightarrow> cfg_get d k = Some v"
  by (simp add: cfg_item_def split: option.splits)

lemma cfg_item_Inl_iff: "cfg_item d k = Inl e \<longleftrightarrow> cfg_get d k = None \<and> e = KeyError (KStr k)"
  by (auto simp add: cfg_item_def split: option.splits)

lemma cfg_set_in_Inr_iff:
  "cfg_set_in d sec k v = Inr d' \<longleftrightarrow>
   (\<exists>sd. cfg_get d sec = Some (PDict sd) \<and> d' = cfg_set d sec (PDict (cfg_set sd k v)))"
  by (cases "cfg_get d sec")
    (auto simp: cfg_set_in_def bind_err_def cfg_item_def split: pyval.splits)

lemma cfg_item_in_Inr_iff:
  "cfg_item_in d sec k = Inr v \<longleftrightarrow> (\<exists>sd. cfg_get d sec = Some (PDict sd) \<and> cfg_get sd k = Some v)"
proof -
  have "py_getitem_str x k = Inr v \<longleftrightarrow> (\<exists>sd. x = PDict sd \<and> cfg_get sd k = Some v)" for x
    by (cases x) (simp_all add: cfg_item_Inr_iff)
  then show ?thesis
    by (auto simp: cfg_item_in_def bind_err_Inr_iff cfg_item_Inr_iff)
qed

subsection \<open>What each branch returns\<close>

lemma select_episode_Inr_iff:
  "select_episode s = Inr s' \<longleftrightarrow>
   (\<exists>sd. cfg_get (buffer_args s) ''EpisodeER'' = Some (PDict sd) \<and>
      s' = s\<lparr>buffer_args :=
        cfg_set (cfg_set (cfg_set (cfg_set (buffer_args s) ''type'' (PStr ''EpisodeER''))
            ''batch_size'' (cfg_get_default (algo_args s) ''episode_batch_size'' (PInt 0)))
            ''buffer_size'' (cfg_get_default (algo_args s) ''episode_buffer_size'' (PInt 0)))
          ''EpisodeER''
          (PDict (cfg_set (cfg_set sd ''burn_in_time_step''
                     (cfg_get_default (algo_args s) ''burn_in_time_step'' (PInt 0)))
             ''train_time_step'' (cfg_get_default (algo_args s) ''train_time_step'' (PInt 0))))\<rparr>)"
  by (auto simp: select_episode_def Let_def bind_err_Inr_iff cfg_set_in_Inr_iff cfg_get_set
      cfg_set_twice)

lemma select_nstep_er_Inr_iff:
  "select_nstep_er pw b s = Inr s' \<longleftrightarrow>
   (\<exists>g sd n r. cfg_get (algo_args s) ''gamma'' = Some g \<and>
      cfg_get b ''NstepER'' = Some (PDict sd) \<and> cfg_get sd ''n'' = Some n \<and> pw g n = Inr r \<and>
      s' = s\<lparr>buffer_args :=
               cfg_set (cfg_set b ''type'' (PStr ''NstepER'')) ''NstepER'' (PDict (cfg_set sd ''gamma'' g)),
             algo_args := cfg_set (algo_args s) ''gamma'' r,
             trace := trace s @ [Pow g n]\<rparr>)"
  by (auto simp: select_nstep_er_def Let_def bind_err_Inr_iff cfg_set_in_Inr_iff cfg_item_in_Inr_iff
      cfg_item_Inr_iff cfg_get_set)

lemma select_per_Inr_iff:
  "select_per b s = Inr s' \<longleftrightarrow>
   (\<exists>mts sd. cfg_get (train_args s) ''max_train_step'' = Some mts \<and>
      cfg_get b ''PER'' = Some (PDict sd) \<and>
      s' = s\<lparr>buffer_args :=
               cfg_set (cfg_set b ''type'' (PStr ''PER'')) ''PER''
                 (PDict (cfg_set sd ''max_train_step'' mts))\<rparr>)"
  by (auto simp: select_per_def Let_def bind_err_Inr_iff cfg_set_in_Inr_iff
      cfg_item_Inr_iff cfg_get_set)

lemma select_nstep_per_Inr_iff:
  "select_nstep_per pw b s = Inr s' \<longleftrightarrow>
   (\<exists>mts g sd n r. cfg_get (train_args s) ''max_train_step'' = Some mts \<and>
      cfg_get (algo_args s) ''gamma'' = Some g \<and>
      cfg_get b ''NstepPER'' = Some (PDict sd) \<and> cfg_get sd ''n'' = Some n \<and> pw g n = Inr r \<and>
      s' = s\<lparr>buffer_args :=
               cfg_set (cfg_set b ''type'' (PStr ''NstepPER'')) ''NstepPER''
                 (PDict (cfg_set (cfg_set sd ''max_train_step'' mts) ''gamma'' g)),
             algo_args := cfg_set (algo_args s) ''gamma'' r,
             trace := trace s @ [Pow g n]\<rparr>)"
  by (auto simp: select_nstep_per_def Let_def bind_err_Inr_iff cfg_set_in_Inr_iff cfg_item_in_Inr_iff
      cfg_item_Inr_iff cfg_get_set cfg_set_twice)

lemma select_transition_type:
  assumes "select_transition pw s = Inr s'"
  shows "cfg_get (buffer_args s') ''type'' = Some (PStr
          (if truthy (cfg_get_default (algo_args s) ''use_priority'' (PBool False))
              \<and> truthy (cfg_get_default (algo_args s) ''n_step'' (PBool False)) then ''NstepPER''
           else if truthy (cfg_get_default (algo_args s) ''use_priority'' (PBool False)) then ''PER''
           else if truthy (cfg_get_default (algo_args s) ''n_step'' (PBool False)) then ''NstepER''
           else ''ER''))"
  using assms
  by (auto simp: select_transition_def Let_def select_nstep_per_Inr_iff select_per_Inr_iff
      select_nstep_er_Inr_iff cfg_get_set split: if_splits)

subsection \<open>The selected variant\<close>

text \<open>
  C1. For an off-policy algorithm, when buffer selection returns, the type it stored
  is EpisodeER if \<^verbatim>\<open>use_rnn == True\<close>; otherwise NstepPER if \<^verbatim>\<open>use_priority\<close> and
  \<^verbatim>\<open>n_step\<close> are both true, PER if only \<^verbatim>\<open>use_priority\<close> is, NstepER if only
  \<^verbatim>\<open>n_step\<close> is, and ER if neither is (a missing key counts as False).
\<close>

theorem buffer_variant_selected:
  assumes "select_buffer pw ''off-policy'' s = Inr s'"
  shows "\<exists>use_rnn. cfg_get (algo_args s) ''use_rnn'' = Some use_rnn \<and>
           cfg_get (buffer_args s') ''type'' = Some (PStr
             (if py_eq_True use_rnn then ''EpisodeER''
              else if truthy (cfg_get_default (algo_args s) ''use_priority'' (PBool False))
                    \<and> truthy (cfg_get_default (algo_args s) ''n_step'' (PBool False)) then ''NstepPER''
              else if truthy (cfg_get_default (algo_args s) ''use_priority'' (PBool False)) then ''PER''
              else if truthy (cfg_get_default (algo_args s) ''n_step'' (PBool False)) then ''NstepER''
              else ''ER''))"
proof -
  from assms obtain use_rnn where u: "cfg_get (algo_args s) ''use_rnn'' = Some use_rnn"
    and r: "(if py_eq_True use_rnn then select_episode s else select_transition pw s) = Inr s'"
    by (auto simp: select_buffer_def bind_err_Inr_iff cfg_item_Inr_iff)
  show ?thesis
  proof (cases "py_eq_True use_rnn")
    case True
    with r have "select_episode s = Inr s'" by simp
    then have "cfg_get (buffer_args s') ''type'' = Some (PStr ''EpisodeER'')"
      by (auto simp: select_episode_Inr_iff cfg_get_set)
    with u True show ?thesis by simp
  next
    case False
    with r have "select_transition pw s = Inr s'" by simp
    from select_transition_type [OF this] u False show ?thesis by simp
  qed
qed

theorem buffer_variant_selected_witness:
  "\<exists>s'. select_buffer int_pow ''off-policy''
       (example_agent [(KStr ''NstepPER'', PDict [(KStr ''n'', PInt 3)])]
          [(KStr ''max_train_step'', PInt 1000)]
          [(KStr ''use_rnn'', PBool False), (KStr ''use_priority'', PBool True),
           (KStr ''n_step'', PInt 3), (KStr ''gamma'', PInt 1)]) = Inr s'
     \<and> cfg_get (buffer_args s') ''type'' = Some (PStr ''NstepPER'')"
proof -
  obtain s' where h: "select_buffer int_pow ''off-policy''
       (example_agent [(KStr ''NstepPER'', PDict [(KStr ''n'', PInt 3)])]
          [(KStr ''max_train_step'', PInt 1000)]
          [(KStr ''use_rnn'', PBool False), (KStr ''use_priority'', PBool True),
           (KStr ''n_step'', PInt 3), (KStr ''gamma'', PInt 1)]) = Inr s'"
    by (simp add: example_defs)
  from buffer_variant_selected [OF h] have "cfg_get (buffer_args s') ''type'' = Some (PStr ''NstepPER'')"
    by (simp add: example_defs)
  with h show ?thesis by blast
qed

text \<open>
  C5. For an off-policy algorithm with \<^verbatim>\<open>use_rnn == True\<close> and a buffer configuration
  that has an EpisodeER section, buffer selection returns with type EpisodeER, with
  batch size and buffer size taken from the algorithm's \<^verbatim>\<open>episode_batch_size\<close> and
  \<^verbatim>\<open>episode_buffer_size\<close>, and with the section's \<^verbatim>\<open>burn_in_time_step\<close> and
  \<^verbatim>\<open>train_time_step\<close> taken from the algorithm's keys of the same names (0 for a
  key the algorithm configuration does not have).
\<close>

theorem episode_variant_configured:
  assumes "cfg_get (algo_args s) ''use_rnn'' = Some use_rnn" and "py_eq_True use_rnn"
    and "cfg_get (buffer_args s) ''EpisodeER'' = Some (PDict sd)"
  shows "\<exists>s'. select_buffer pw ''off-policy'' s = Inr s'
     \<and> cfg_get (buffer_args s') ''type'' = Some (PStr ''EpisodeER'')
     \<and> cfg_get (buffer_args s') ''batch_size''
           = Some (cfg_get_default (algo_args s) ''episode_batch_size'' (PInt 0))
     \<and> cfg_get (buffer_args s') ''buffer_size''
           = Some (cfg_get_default (algo_args s) ''episode_buffer_size'' (PInt 0))
     \<and> section_get (buffer_args s') ''EpisodeER'' ''burn_in_time_step''
           = Some (cfg_get_default (algo_args s) ''burn_in_time_step'' (PInt 0))
     \<and> section_get (buffer_args s') ''EpisodeER'' ''train_time_step''
           = Some (cfg_get_default (algo_args s) ''train_time_step'' (PInt 0))"
  using assms
  by (simp add: select_buffer_def bind_err_def cfg_item_def select_episode_Inr_iff
      cfg_get_set section_get_def)

theorem episode_variant_configured_witness:
  "\<exists>s'. select_buffer int_pow ''off-policy''
       (example_agent [(KStr ''EpisodeER'', PDict [])] []
          [(KStr ''use_rnn'', PBool True), (KStr ''episode_batch_size'', PInt 32),
           (KStr ''episode_buffer_size'', PInt 500), (KStr ''burn_in_time_step'', PInt 20),
           (KStr ''train_time_step'', PInt 40)]) = Inr s'
     \<and> cfg_get (buffer_args s') ''type'' = Some (PStr ''EpisodeER'')
     \<and> cfg_get (buffer_args s') ''batch_size'' = Some (PInt 32)
     \<and> cfg_get (buffer_args s') ''buffer_size'' = Some (PInt 500)
     \<and> section_get (buffer_args s') ''EpisodeER'' ''burn_in_time_step'' = Some (PInt 20)
     \<and> section_get (buffer_args s') ''EpisodeER'' ''train_time_step'' = Some (PInt 40)"
  using episode_variant_configured [of
      "example_agent [(KStr ''EpisodeER'', PDict [])] []
          [(KStr ''use_rnn'', PBool True), (KStr ''episode_batch_size'', PInt 32),
           (KStr ''episode_buffer_size'', PInt 500), (KStr ''burn_in_time_step'', PInt 20),
           (KStr ''train_time_step'', PInt 40)]" "PBool True" "[]" int_pow]
  by (simp add: example_agent_def cfg_get_def cfg_get_default_def)

text \<open>
  C8. For every policy mode other than 'off-policy', buffer selection returns, having
  stored the type 'None' and set the training configuration's \<^verbatim>\<open>pre_fill_steps\<close> to
  0 whatever it was; the algorithm configuration is left as it was and \<^verbatim>\<open>pow\<close> is
  not called.
\<close>

theorem on_policy_no_buffer:
  "policy_mode \<noteq> ''off-policy'' \<Longrightarrow>
   \<exists>s'. select_buffer pw policy_mode s = Inr s'
     \<and> cfg_get (buffer_args s') ''type'' = Some (PStr ''None'')
     \<and> cfg_get (train_args s') ''pre_fill_steps'' = Some (PInt 0)
     \<and> algo_args s' = algo_args s \<and> trace s' = trace s"
  by (simp add: select_buffer_def cfg_get_set)

theorem on_policy_no_buffer_witness:
  "''on-policy'' \<noteq> ''off-policy'' \<and>
   (\<exists>s'. select_buffer int_pow ''on-policy''
       (example_agent [(KStr ''type'', PStr ''ER'')] [(KStr ''pre_fill_steps'', PInt 5000)] []) = Inr s'
     \<and> cfg_get (buffer_args s') ''type'' = Some (PStr ''None'')
     \<and> cfg_get (train_args s') ''pre_fill_steps'' = Some (PInt 0))"
  using on_policy_no_buffer [of "''on-policy''" int_pow
      "example_agent [(KStr ''type'', PStr ''ER'')] [(KStr ''pre_fill_steps'', PInt 5000)] []"]
  by auto

lemma section_get_set:
  "section_get (cfg_set d k v) sec k' =
     (if sec = k then (case v of PDict sd \<Rightarrow> cfg_get sd k' | _ \<Rightarrow> None) else section_get d sec k')"
  by (simp add: section_get_def cfg_get_set)

lemma section_get_Some_iff:
  "cfg_get d sec = Some (PDict sd) \<Longrightarrow> section_get d sec k = cfg_get sd k"
  by (simp add: section_get_def)

lemma select_transition_cases:
  assumes "select_transition pw s = Inr s'"
  obtains (nstep_per) "truthy (cfg_get_default (algo_args s) ''use_priority'' (PBool False))"
      "truthy (cfg_get_default (algo_args s) ''n_step'' (PBool False))"
      "select_nstep_per pw (cfg_set (cfg_set (buffer_args s) ''batch_size'' (cfg_get_default (algo_args s) ''batch_size'' (PInt 0)))
          ''buffer_size'' (cfg_get_default (algo_args s) ''buffer_size'' (PInt 0))) s = Inr s'"
    | (per) "truthy (cfg_get_default (algo_args s) ''use_priority'' (PBool False))"
      "\<not> truthy (cfg_get_default (algo_args s) ''n_step'' (PBool False))"
      "select_per (cfg_set (cfg_set (buffer_args s) ''batch_size'' (cfg_get_default (algo_args s) ''batch_size'' (PInt 0)))
          ''buffer_size'' (cfg_get_default (algo_args s) ''buffer_size'' (PInt 0))) s = Inr s'"
    | (nstep_er) "\<not> truthy (cfg_get_default (algo_args s) ''use_priority'' (PBool False))"
      "truthy (cfg_get_default (algo_args s) ''n_step'' (PBool False))"
      "select_nstep_er pw (cfg_set (cfg_set (buffer_args s) ''batch_size'' (cfg_get_default (algo_args s) ''batch_size'' (PInt 0)))
          ''buffer_size'' (cfg_get_default (algo_args s) ''buffer_size'' (PInt 0))) s = Inr s'"
    | (er) "\<not> truthy (cfg_get_default (algo_args s) ''use_priority'' (PBool False))"
      "\<not> truthy (cfg_get_default (algo_args s) ''n_step'' (PBool False))"
      "s' = s\<lparr>buffer_args := cfg_set (cfg_set (cfg_set (buffer_args s) ''batch_size'' (cfg_get_default (algo_args s) ''batch_size'' (PInt 0)))
          ''buffer_size'' (cfg_get_default (algo_args s) ''buffer_size'' (PInt 0))) ''type'' (PStr ''ER'')\<rparr>"
  using assms by (auto simp: select_transition_def Let_def split: if_splits)

lemma select_buffer_cases:
  assumes "select_buffer pw policy_mode s = Inr s'"
  obtains (on_policy) "policy_mode \<noteq> ''off-policy''"
      "s' = s\<lparr>buffer_args := cfg_set (buffer_args s) ''type'' (PStr ''None''),
              train_args := cfg_set (train_args s) ''pre_fill_steps'' (PInt 0)\<rparr>"
    | (episode) use_rnn where "policy_mode = ''off-policy''"
      "cfg_get (algo_args s) ''use_rnn'' = Some use_rnn" "py_eq_True use_rnn" "select_episode s = Inr s'"
    | (transition) use_rnn where "policy_mode = ''off-policy''"
      "cfg_get (algo_args s) ''use_rnn'' = Some use_rnn" "\<not> py_eq_True use_rnn"
      "select_transition pw s = Inr s'"
  using assms
  by (auto simp: select_buffer_def bind_err_Inr_iff cfg_item_Inr_iff split: if_splits)

subsection \<open>The discount of the n-step variants\<close>

text \<open>
  C2. When buffer selection returns with type NstepER or NstepPER, the section of that
  variant holds the algorithm's original \<^verbatim>\<open>gamma\<close>, its \<^verbatim>\<open>n\<close> is as configured, the
  algorithm's \<^verbatim>\<open>gamma\<close> is now \<^verbatim>\<open>pow(gamma, n)\<close>, and that is the one call to
  \<^verbatim>\<open>pow\<close> that selection made.
\<close>

theorem nstep_gamma_replaced:
  assumes "select_buffer pw policy_mode s = Inr s'"
    and "cfg_get (buffer_args s') ''type'' = Some (PStr v)"
    and "v = ''NstepER'' \<or> v = ''NstepPER''"
  shows "\<exists>g n r. cfg_get (algo_args s) ''gamma'' = Some g
     \<and> section_get (buffer_args s) v ''n'' = Some n
     \<and> section_get (buffer_args s') v ''n'' = Some n
     \<and> section_get (buffer_args s') v ''gamma'' = Some g
     \<and> pw g n = Inr r
     \<and> cfg_get (algo_args s') ''gamma'' = Some r
     \<and> trace s' = trace s @ [Pow g n]"
  using assms(1)
proof (cases rule: select_buffer_cases)
  case on_policy
  with assms(2,3) show ?thesis by (auto simp: cfg_get_set)
next
  case (episode use_rnn)
  with assms(2,3) show ?thesis by (auto simp: select_episode_Inr_iff cfg_get_set)
next
  case (transition use_rnn)
  from transition(4) show ?thesis
  proof (cases rule: select_transition_cases)
    case nstep_per
    with assms(2,3) show ?thesis
      by (auto simp: select_nstep_per_Inr_iff cfg_get_set section_get_def)
  next
    case per
    with assms(2,3) show ?thesis by (auto simp: select_per_Inr_iff cfg_get_set)
  next
    case nstep_er
    with assms(2,3) show ?thesis
      by (auto simp: select_nstep_er_Inr_iff cfg_get_set section_get_def)
  next
    case er
    with assms(2,3) show ?thesis by (auto simp: cfg_get_set)
  qed
qed


theorem nstep_gamma_replaced_witness:
  "\<exists>s'. select_buffer int_pow ''off-policy''
       (example_agent [(KStr ''NstepER'', PDict [(KStr ''n'', PInt 4)])] []
          [(KStr ''use_rnn'', PBool False), (KStr ''n_step'', PBool True), (KStr ''gamma'', PInt 2)]) = Inr s'
     \<and> section_get (buffer_args s') ''NstepER'' ''gamma'' = Some (PInt 2)
     \<and> cfg_get (algo_args s') ''gamma'' = Some (PInt 16)
     \<and> trace s' = [Pow (PInt 2) (PInt 4)]"
proof -
  let ?s = "example_agent [(KStr ''NstepER'', PDict [(KStr ''n'', PInt 4)])] []
          [(KStr ''use_rnn'', PBool False), (KStr ''n_step'', PBool True), (KStr ''gamma'', PInt 2)]"
  obtain s' where h: "select_buffer int_pow ''off-policy'' ?s = Inr s'"
    by (simp add: example_defs)
  then have t: "cfg_get (buffer_args s') ''type'' = Some (PStr ''NstepER'')"
    by (auto simp add: example_defs)
  from nstep_gamma_replaced [OF h t] obtain g n r where
    "cfg_get (algo_args ?s) ''gamma'' = Some g" "section_get (buffer_args ?s) ''NstepER'' ''n'' = Some n"
    "section_get (buffer_args s') ''NstepER'' ''gamma'' = Some g" "int_pow g n = Inr r"
    "cfg_get (algo_args s') ''gamma'' = Some r" "trace s' = trace ?s @ [Pow g n]"
    by auto
  then have "section_get (buffer_args s') ''NstepER'' ''gamma'' = Some (PInt 2)
     \<and> cfg_get (algo_args s') ''gamma'' = Some (PInt 16) \<and> trace s' = [Pow (PInt 2) (PInt 4)]"
    by (auto simp: example_defs)
  with h show ?thesis by blast
qed



subsection \<open>The sections after selection\<close>

lemma section_get_set_other: "sec \<noteq> k \<Longrightarrow> section_get (cfg_set d k v) sec k' = section_get d sec k'"
  by (simp add: section_get_def cfg_get_set)

lemma section_get_set_same: "section_get (cfg_set d sec (PDict sd)) sec k' = cfg_get sd k'"
  by (simp add: section_get_def cfg_get_set)

lemma section_get_set_dict:
  "section_get (cfg_set d k (PDict sd)) sec k' = (if sec = k then cfg_get sd k' else section_get d sec k')"
  by (simp add: section_get_def cfg_get_set)

lemma select_nstep_per_sections:
  assumes "select_nstep_per pw b s = Inr s'" and "sec \<noteq> ''type''"
  shows "section_get (buffer_args s') sec k =
     (if sec = ''NstepPER'' \<and> k = ''gamma'' then cfg_get (algo_args s) ''gamma''
      else if sec = ''NstepPER'' \<and> k = ''max_train_step'' then cfg_get (train_args s) ''max_train_step''
      else section_get b sec k)"
proof -
  from assms(1) obtain mts g sd where
    m: "cfg_get (train_args s) ''max_train_step'' = Some mts" and g: "cfg_get (algo_args s) ''gamma'' = Some g"
    and sd: "cfg_get b ''NstepPER'' = Some (PDict sd)"
    and b: "buffer_args s' = cfg_set (cfg_set b ''type'' (PStr ''NstepPER'')) ''NstepPER''
                 (PDict (cfg_set (cfg_set sd ''max_train_step'' mts) ''gamma'' g))"
    by (auto simp: select_nstep_per_Inr_iff)
  from sd have "section_get b ''NstepPER'' k = cfg_get sd k" by (rule section_get_Some_iff)
  with assms(2) m g show ?thesis
    by (simp add: b section_get_set_dict section_get_set_other cfg_get_set)
qed

lemma select_per_sections:
  assumes "select_per b s = Inr s'" and "sec \<noteq> ''type''"
  shows "section_get (buffer_args s') sec k =
     (if sec = ''PER'' \<and> k = ''max_train_step'' then cfg_get (train_args s) ''max_train_step''
      else section_get b sec k)"
proof -
  from assms(1) obtain mts sd where
    m: "cfg_get (train_args s) ''max_train_step'' = Some mts"
    and sd: "cfg_get b ''PER'' = Some (PDict sd)"
    and b: "buffer_args s' = cfg_set (cfg_set b ''type'' (PStr ''PER'')) ''PER''
                 (PDict (cfg_set sd ''max_train_step'' mts))"
    by (auto simp: select_per_Inr_iff)
  from sd have "section_get b ''PER'' k = cfg_get sd k" by (rule section_get_Some_iff)
  with assms(2) m show ?thesis
    by (simp add: b section_get_set_dict section_get_set_other cfg_get_set)
qed

lemma select_nstep_er_sections:
  assumes "select_nstep_er pw b s = Inr s'" and "sec \<noteq> ''type''"
  shows "section_get (buffer_args s') sec k =
     (if sec = ''NstepER'' \<and> k = ''gamma'' then cfg_get (algo_args s) ''gamma''
      else section_get b sec k)"
proof -
  from assms(1) obtain g sd where
    g: "cfg_get (algo_args s) ''gamma'' = Some g"
    and sd: "cfg_get b ''NstepER'' = Some (PDict sd)"
    and b: "buffer_args s' = cfg_set (cfg_set b ''type'' (PStr ''NstepER'')) ''NstepER''
                 (PDict (cfg_set sd ''gamma'' g))"
    by (auto simp: select_nstep_er_Inr_iff)
  from sd have "section_get b ''NstepER'' k = cfg_get sd k" by (rule section_get_Some_iff)
  with assms(2) g show ?thesis
    by (simp add: b section_get_set_dict section_get_set_other cfg_get_set)
qed

lemma select_episode_sections:
  assumes "select_episode s = Inr s'" and "sec \<notin> {''type'', ''batch_size'', ''buffer_size''}"
  shows "section_get (buffer_args s') sec k =
     (if sec = ''EpisodeER'' \<and> k = ''burn_in_time_step''
        then Some (cfg_get_default (algo_args s) ''burn_in_time_step'' (PInt 0))
      else if sec = ''EpisodeER'' \<and> k = ''train_time_step''
        then Some (cfg_get_default (algo_args s) ''train_time_step'' (PInt 0))
      else section_get (buffer_args s) sec k)"
proof -
  from assms(1) obtain sd where sd: "cfg_get (buffer_args s) ''EpisodeER'' = Some (PDict sd)"
    and b: "buffer_args s' =
        cfg_set (cfg_set (cfg_set (cfg_set (buffer_args s) ''type'' (PStr ''EpisodeER''))
            ''batch_size'' (cfg_get_default (algo_args s) ''episode_batch_size'' (PInt 0)))
            ''buffer_size'' (cfg_get_default (algo_args s) ''episode_buffer_size'' (PInt 0)))
          ''EpisodeER''
          (PDict (cfg_set (cfg_set sd ''burn_in_time_step''
                     (cfg_get_default (algo_args s) ''burn_in_time_step'' (PInt 0)))
             ''train_time_step'' (cfg_get_default (algo_args s) ''train_time_step'' (PInt 0))))"
    by (auto simp: select_episode_Inr_iff)
  from sd have "section_get (buffer_args s) ''EpisodeER'' k = cfg_get sd k" by (rule section_get_Some_iff)
  with assms(2) show ?thesis
    by (simp add: b section_get_set_dict section_get_set_other cfg_get_set)
qed


lemma select_nstep_per_type: "select_nstep_per pw b s = Inr s' \<Longrightarrow> cfg_get (buffer_args s') ''type'' = Some (PStr ''NstepPER'')"
  by (auto simp: select_nstep_per_Inr_iff cfg_get_set)

lemma select_per_type: "select_per b s = Inr s' \<Longrightarrow> cfg_get (buffer_args s') ''type'' = Some (PStr ''PER'')"
  by (auto simp: select_per_Inr_iff cfg_get_set)

lemma select_nstep_er_type: "select_nstep_er pw b s = Inr s' \<Longrightarrow> cfg_get (buffer_args s') ''type'' = Some (PStr ''NstepER'')"
  by (auto simp: select_nstep_er_Inr_iff cfg_get_set)

lemma select_episode_type: "select_episode s = Inr s' \<Longrightarrow> cfg_get (buffer_args s') ''type'' = Some (PStr ''EpisodeER'')"
  by (auto simp: select_episode_Inr_iff cfg_get_set)

lemma select_nstep_per_max_train_step:
  "select_nstep_per pw b s = Inr s' \<Longrightarrow> \<exists>mts. cfg_get (train_args s) ''max_train_step'' = Some mts"
  by (auto simp: select_nstep_per_Inr_iff)

lemma select_per_max_train_step:
  "select_per b s = Inr s' \<Longrightarrow> \<exists>mts. cfg_get (train_args s) ''max_train_step'' = Some mts"
  by (auto simp: select_per_Inr_iff)

text \<open>
  C7. When buffer selection returns with type PER or NstepPER, the section of that
  variant holds the training configuration's \<^verbatim>\<open>max_train_step\<close>. When it returns
  with any other type, no variant's section has a changed \<^verbatim>\<open>max_train_step\<close>: the
  value is supplied for exactly the two priority variants. (Both parts speak of what
  is read under a key, so they hold as well where two keys of the configuration are
  bound to one section object.)
\<close>

theorem max_train_step_supplied:
  assumes "select_buffer pw policy_mode s = Inr s'" and "cfg_get (buffer_args s') ''type'' = Some (PStr v)"
  shows "(v = ''PER'' \<or> v = ''NstepPER'' \<longrightarrow>
            (\<exists>mts. cfg_get (train_args s) ''max_train_step'' = Some mts
               \<and> section_get (buffer_args s') v ''max_train_step'' = Some mts))
       \<and> (v \<noteq> ''PER'' \<and> v \<noteq> ''NstepPER'' \<longrightarrow>
            (\<forall>sec \<in> {''ER'', ''PER'', ''NstepER'', ''NstepPER'', ''EpisodeER''}.
               section_get (buffer_args s') sec ''max_train_step''
                 = section_get (buffer_args s) sec ''max_train_step''))"
  using assms(1)
proof (cases rule: select_buffer_cases)
  case on_policy
  with assms(2) have "v = ''None''" by (simp add: cfg_get_set)
  with on_policy show ?thesis by (simp add: section_get_set_other)
next
  case (episode use_rnn)
  from select_episode_type [OF episode(4)] assms(2) have "v = ''EpisodeER''" by simp
  then show ?thesis by (simp add: select_episode_sections [OF episode(4)])
next
  case (transition use_rnn)
  from transition(4) show ?thesis
  proof (cases rule: select_transition_cases)
    case nstep_per
    from select_nstep_per_type [OF nstep_per(3)] assms(2) have v: "v = ''NstepPER''" by simp
    from select_nstep_per_max_train_step [OF nstep_per(3)] obtain mts
      where "cfg_get (train_args s) ''max_train_step'' = Some mts" by blast
    with v show ?thesis
      by (simp add: select_nstep_per_sections [OF nstep_per(3)])
  next
    case per
    from select_per_type [OF per(3)] assms(2) have v: "v = ''PER''" by simp
    from select_per_max_train_step [OF per(3)] obtain mts
      where "cfg_get (train_args s) ''max_train_step'' = Some mts" by blast
    with v show ?thesis
      by (simp add: select_per_sections [OF per(3)])
  next
    case nstep_er
    from select_nstep_er_type [OF nstep_er(3)] assms(2) have v: "v = ''NstepER''" by simp
    then show ?thesis
      by (simp add: select_nstep_er_sections [OF nstep_er(3)] section_get_set_other)
  next
    case er
    with assms(2) have v: "v = ''ER''" by (simp add: cfg_get_set)
    with er show ?thesis by (simp add: section_get_set_other)
  qed
qed


theorem max_train_step_supplied_witness:
  "(\<exists>s'. select_buffer int_pow ''off-policy''
       (example_agent [(KStr ''PER'', PDict []), (KStr ''ER'', PDict [])]
          [(KStr ''max_train_step'', PInt 1000)]
          [(KStr ''use_rnn'', PBool False), (KStr ''use_priority'', PBool True)]) = Inr s'
     \<and> cfg_get (buffer_args s') ''type'' = Some (PStr ''PER'')
     \<and> section_get (buffer_args s') ''PER'' ''max_train_step'' = Some (PInt 1000))
   \<and> (\<exists>s'. select_buffer int_pow ''off-policy''
       (example_agent [(KStr ''NstepER'', PDict [(KStr ''n'', PInt 2)]),
                       (KStr ''PER'', PDict [(KStr ''max_train_step'', PInt 5)])]
          [(KStr ''max_train_step'', PInt 1000)]
          [(KStr ''use_rnn'', PBool False), (KStr ''n_step'', PBool True), (KStr ''gamma'', PInt 1)]) = Inr s'
     \<and> cfg_get (buffer_args s') ''type'' = Some (PStr ''NstepER'')
     \<and> section_get (buffer_args s') ''NstepER'' ''max_train_step'' = None
     \<and> section_get (buffer_args s') ''PER'' ''max_train_step'' = Some (PInt 5))"
proof -
  let ?s = "example_agent [(KStr ''PER'', PDict []), (KStr ''ER'', PDict [])]
          [(KStr ''max_train_step'', PInt 1000)]
          [(KStr ''use_rnn'', PBool False), (KStr ''use_priority'', PBool True)]"
  let ?r = "example_agent [(KStr ''NstepER'', PDict [(KStr ''n'', PInt 2)]),
                       (KStr ''PER'', PDict [(KStr ''max_train_step'', PInt 5)])]
          [(KStr ''max_train_step'', PInt 1000)]
          [(KStr ''use_rnn'', PBool False), (KStr ''n_step'', PBool True), (KStr ''gamma'', PInt 1)]"
  obtain s' where h: "select_buffer int_pow ''off-policy'' ?s = Inr s'"
    by (simp add: example_defs)
  then have t: "cfg_get (buffer_args s') ''type'' = Some (PStr ''PER'')"
    by (auto simp add: example_defs)
  from max_train_step_supplied [OF h t]
  have p: "section_get (buffer_args s') ''PER'' ''max_train_step'' = Some (PInt 1000)"
    by (simp add: example_agent_def cfg_get_def)
  obtain r' where h2: "select_buffer int_pow ''off-policy'' ?r = Inr r'"
    by (simp add: example_defs)
  then have t2: "cfg_get (buffer_args r') ''type'' = Some (PStr ''NstepER'')"
    by (auto simp add: example_defs)
  from max_train_step_supplied [OF h2 t2]
  have q: "section_get (buffer_args r') ''NstepER'' ''max_train_step'' = None
     \<and> section_get (buffer_args r') ''PER'' ''max_train_step'' = Some (PInt 5)"
    by (simp add: example_agent_def cfg_get_def section_get_def)
  from h t p h2 t2 q show ?thesis by blast
qed

subsection \<open>What buffer selection can raise\<close>

lemma cfg_set_in_Inl: "cfg_set_in d sec k v = Inl e \<Longrightarrow> is_lookup_error e"
  by (cases "cfg_get d sec")
    (auto simp: cfg_set_in_def bind_err_def cfg_item_def split: pyval.splits)

lemma cfg_item_Inl: "cfg_item d k = Inl e \<Longrightarrow> is_lookup_error e"
  by (auto simp: cfg_item_def split: option.splits)

lemma py_getitem_str_Inl: "py_getitem_str x k = Inl e \<Longrightarrow> is_lookup_error e"
  by (cases x) (auto dest: cfg_item_Inl)

lemma cfg_item_in_Inl: "cfg_item_in d sec k = Inl e \<Longrightarrow> is_lookup_error e"
  by (auto simp: cfg_item_in_def bind_err_Inl_iff dest: cfg_item_Inl py_getitem_str_Inl)

lemma select_episode_Inl: "select_episode s = Inl e \<Longrightarrow> is_lookup_error e"
  by (auto simp: select_episode_def Let_def bind_err_Inl_iff dest: cfg_set_in_Inl)

lemma select_per_Inl: "select_per b s = Inl e \<Longrightarrow> is_lookup_error e"
  by (auto simp: select_per_def Let_def bind_err_Inl_iff dest: cfg_set_in_Inl cfg_item_Inl)

lemma select_nstep_er_Inl:
  "select_nstep_er pw b s = Inl e \<Longrightarrow> is_lookup_error e \<or> (\<exists>g n. pw g n = Inl e)"
  by (auto simp: select_nstep_er_def Let_def bind_err_Inl_iff
      dest: cfg_set_in_Inl cfg_item_Inl cfg_item_in_Inl)

lemma select_nstep_per_Inl:
  "select_nstep_per pw b s = Inl e \<Longrightarrow> is_lookup_error e \<or> (\<exists>g n. pw g n = Inl e)"
  by (auto simp: select_nstep_per_def Let_def bind_err_Inl_iff
      dest: cfg_set_in_Inl cfg_item_Inl cfg_item_in_Inl)

lemma select_transition_Inl:
  "select_transition pw s = Inl e \<Longrightarrow> is_lookup_error e \<or> (\<exists>g n. pw g n = Inl e)"
  by (auto simp: select_transition_def Let_def split: if_splits
      dest: select_per_Inl select_nstep_er_Inl select_nstep_per_Inl)

lemma select_buffer_Inl:
  "select_buffer pw policy_mode s = Inl e \<Longrightarrow> is_lookup_error e \<or> (\<exists>g n. pw g n = Inl e)"
  by (auto simp: select_buffer_def bind_err_Inl_iff split: if_splits
      dest: cfg_item_Inl select_episode_Inl select_transition_Inl)


lemma select_transition_sizes:
  assumes "select_transition pw s = Inr s'"
  shows "cfg_get (buffer_args s') ''batch_size'' = Some (cfg_get_default (algo_args s) ''batch_size'' (PInt 0))"
    and "cfg_get (buffer_args s') ''buffer_size'' = Some (cfg_get_default (algo_args s) ''buffer_size'' (PInt 0))"
  using assms
  by (cases rule: select_transition_cases;
      auto simp: select_nstep_per_Inr_iff select_per_Inr_iff select_nstep_er_Inr_iff cfg_get_set)+

lemma select_transition_n:
  assumes "select_transition pw s = Inr s'" and "sec = ''NstepER'' \<or> sec = ''NstepPER''"
  shows "section_get (buffer_args s') sec ''n'' = section_get (buffer_args s) sec ''n''"
  using assms(1)
proof (cases rule: select_transition_cases)
  case nstep_per
  with assms(2) show ?thesis
    by (auto simp: select_nstep_per_sections [OF nstep_per(3)] section_get_set_other)
next
  case per
  with assms(2) show ?thesis
    by (auto simp: select_per_sections [OF per(3)] section_get_set_other)
next
  case nstep_er
  with assms(2) show ?thesis
    by (auto simp: select_nstep_er_sections [OF nstep_er(3)] section_get_set_other)
next
  case er
  with assms(2) show ?thesis by (auto simp: section_get_set_other)
qed

section \<open>Properties of the constructor\<close>

lemma assign_agents_num_str:
  "cfg_get b ''type'' = Some (PStr t) \<Longrightarrow>
   assign_agents_num b rhs =
     (if str_contains ''Nstep'' t \<or> str_contains ''Episode'' t
      then bind_err rhs (\<lambda>v. cfg_set_in b t ''agents_num'' v) else Inr b)"
  by (simp add: assign_agents_num_def bind_err_def cfg_item_def)

lemma build_buffer_Inr_iff:
  "build_buffer X b rhs = Inr (b', buffer) \<longleftrightarrow>
   assign_agents_num b rhs = Inr b' \<and> x_get_buffer X b' = Inr buffer"
  by (auto simp: build_buffer_def bind_err_Inr_iff)

lemma section_get_cfg_set_in:
  assumes "cfg_set_in b t k v = Inr b'"
  shows "section_get b' sec k' = (if sec = t \<and> k' = k then Some v else section_get b sec k')"
    and "t \<noteq> key \<Longrightarrow> cfg_get b' key = cfg_get b key"
proof -
  from assms obtain sd where sd: "cfg_get b t = Some (PDict sd)"
    and b': "b' = cfg_set b t (PDict (cfg_set sd k v))"
    by (auto simp: cfg_set_in_Inr_iff)
  from sd have "section_get b t k' = cfg_get sd k'" by (rule section_get_Some_iff)
  then show "section_get b' sec k' = (if sec = t \<and> k' = k then Some v else section_get b sec k')"
    by (simp add: b' section_get_set_dict cfg_get_set)
  show "t \<noteq> key \<Longrightarrow> cfg_get b' key = cfg_get b key"
    by (simp add: b' cfg_get_set)
qed


lemma init_gym_buffer:
  assumes "init_gym X k s = Inr a"
  shows "\<exists>buffer. build_buffer X (buffer_args s) (cfg_item (env_args s) ''env_num'') = Inr (buffer_args a, buffer)
          \<and> trace a = trace s @ [GetBuffer (buffer_args a), SetBuffer]
          \<and> env_args a = env_args s \<and> env a = env s
          \<and> multi_agents_training a = multi_agents_training s"
  using assms
  by (auto simp: init_gym_def bind_err_Inr_iff Let_def split: prod.splits)

lemma init_ma_unity_buffer:
  assumes "init_ma_unity X k s = Inr a"
  shows "\<exists>buffer. build_buffer X (buffer_args s) (cfg_item (env_args s) ''env_num'') = Inr (buffer_args a, buffer)
          \<and> trace a = trace s @ [GetBuffer (buffer_args a), SetBuffer]
          \<and> env_args a = env_args s \<and> env a = env s
          \<and> multi_agents_training a = multi_agents_training s"
  using assms
  by (auto simp: init_ma_unity_def bind_err_Inr_iff Let_def split: prod.splits if_splits)


lemma get_buffer_calls_append:
  "get_buffer_calls (xs @ ys) = get_buffer_calls xs @ get_buffer_calls ys"
  by (induction xs rule: get_buffer_calls.induct) simp_all

lemma bind_err_InrE:
  assumes "bind_err m f = Inr y"
  obtains x where "m = Inr x" and "f x = Inr y"
  using assms by (auto simp: bind_err_Inr_iff)

lemma init_brain_buffer:
  assumes "init_brain X k s i b = Inr a"
  shows "\<exists>bargs buffer.
            build_buffer X (buffer_args s) (env_attr_at X (env s) ''brain_agents'' i) = Inr (bargs, buffer)
          \<and> trace a = trace s @ [GetBuffer bargs, SetBuffer]
          \<and> buffer_args a = buffer_args s
          \<and> env_args a = env_args s \<and> env a = env s
          \<and> multi_agents_training a = multi_agents_training s"
  using assms unfolding init_brain_def Let_def
  apply (elim bind_err_InrE)
  apply (simp only: split_paired_all prod.case)
  apply (elim bind_err_InrE)
  apply (simp only: sum.inject)
  apply auto
  done

lemma init_brains_buffers:
  assumes "init_brains X k s i bs = Inr a"
  shows "buffer_args a = buffer_args s \<and> env_args a = env_args s \<and> env a = env s
       \<and> multi_agents_training a = multi_agents_training s
       \<and> (\<exists>cfgs. length cfgs = length bs
             \<and> get_buffer_calls (trace a) = get_buffer_calls (trace s) @ cfgs
             \<and> (\<forall>j < length bs. \<exists>buffer.
                   build_buffer X (buffer_args s) (env_attr_at X (env s) ''brain_agents'' (i + j))
                     = Inr (cfgs ! j, buffer)))"
  using assms
proof (induction bs arbitrary: s i)
  case Nil
  then show ?case by simp
next
  case (Cons b bs)
  from Cons.prems obtain s1 where s1: "init_brain X k s i b = Inr s1"
    and rest: "init_brains X k s1 (Suc i) bs = Inr a"
    by (auto simp: bind_err_Inr_iff)
  from init_brain_buffer [OF s1] obtain bargs buffer where
    bb: "build_buffer X (buffer_args s) (env_attr_at X (env s) ''brain_agents'' i) = Inr (bargs, buffer)"
    and tr: "trace s1 = trace s @ [GetBuffer bargs, SetBuffer]"
    and fr: "buffer_args s1 = buffer_args s" "env_args s1 = env_args s" "env s1 = env s"
       "multi_agents_training s1 = multi_agents_training s"
    by blast
  from Cons.IH [OF rest] obtain cfgs where
    fr2: "buffer_args a = buffer_args s1" "env_args a = env_args s1" "env a = env s1"
       "multi_agents_training a = multi_agents_training s1"
    and len: "length cfgs = length bs"
    and calls: "get_buffer_calls (trace a) = get_buffer_calls (trace s1) @ cfgs"
    and each: "\<forall>j < length bs. \<exists>buffer.
                   build_buffer X (buffer_args s1) (env_attr_at X (env s1) ''brain_agents'' (Suc i + j))
                     = Inr (cfgs ! j, buffer)"
    by blast
  have c: "get_buffer_calls (trace a) = get_buffer_calls (trace s) @ (bargs # cfgs)"
    by (simp add: calls tr get_buffer_calls_append)
  have e: "\<exists>buffer. build_buffer X (buffer_args s) (env_attr_at X (env s) ''brain_agents'' (i + j))
                     = Inr ((bargs # cfgs) ! j, buffer)" if "j < length (b # bs)" for j
  proof (cases j)
    case 0
    with bb show ?thesis by auto
  next
    case (Suc j')
    with that have "j' < length bs" by simp
    with each fr Suc show ?thesis by auto
  qed
  have l: "length (bargs # cfgs) = length (b # bs)" using len by simp
  from l c e have "\<exists>cfgs. length cfgs = length (b # bs)
             \<and> get_buffer_calls (trace a) = get_buffer_calls (trace s) @ cfgs
             \<and> (\<forall>j < length (b # bs). \<exists>buffer.
                   build_buffer X (buffer_args s) (env_attr_at X (env s) ''brain_agents'' (i + j))
                     = Inr (cfgs ! j, buffer))"
    by blast
  with fr fr2 show ?case by simp
qed



lemma init_config_frame:
  assumes "init_config X ea ma ba ta = Inr (s1, k, pm)"
  shows "buffer_args s1 = ba \<and> env_args s1 = ea \<and> trace s1 = []"
  using assms unfolding init_config_def Let_def
  apply (elim bind_err_InrE)
  apply (simp only: split_paired_all prod.case)
  apply (elim bind_err_InrE)
  apply auto
  done

lemma select_buffer_frame:
  assumes "select_buffer pw pm s = Inr s'"
  shows "env_args s' = env_args s \<and> env s' = env s
       \<and> multi_agents_training s' = multi_agents_training s
       \<and> get_buffer_calls (trace s') = get_buffer_calls (trace s)"
  using assms(1)
proof (cases rule: select_buffer_cases)
  case on_policy
  then show ?thesis by simp
next
  case (episode use_rnn)
  then show ?thesis by (auto simp: select_episode_Inr_iff)
next
  case (transition use_rnn)
  from transition(4) show ?thesis
    by (cases rule: select_transition_cases)
      (auto simp: select_nstep_per_Inr_iff select_per_Inr_iff select_nstep_er_Inr_iff
        get_buffer_calls_append)
qed







section \<open>No validation of the buffer configuration\<close>

lemma select_buffer_n:
  assumes "select_buffer pw pm s = Inr s'" and "sec = ''NstepER'' \<or> sec = ''NstepPER''"
  shows "section_get (buffer_args s') sec ''n'' = section_get (buffer_args s) sec ''n''"
  using assms(1)
proof (cases rule: select_buffer_cases)
  case on_policy
  with assms(2) show ?thesis by (auto simp: section_get_set_other)
next
  case (episode use_rnn)
  with assms(2) show ?thesis by (auto simp: select_episode_sections [OF episode(4)])
next
  case (transition use_rnn)
  from select_transition_n [OF transition(4) assms(2)] show ?thesis .
qed

lemma select_episode_sizes:
  assumes "select_episode s = Inr s'"
  shows "cfg_get (buffer_args s') ''batch_size'' = Some (cfg_get_default (algo_args s) ''episode_batch_size'' (PInt 0))"
    and "cfg_get (buffer_args s') ''buffer_size'' = Some (cfg_get_default (algo_args s) ''episode_buffer_size'' (PInt 0))"
  using assms by (auto simp: select_episode_Inr_iff cfg_get_set)

lemma select_buffer_type_name:
  assumes "select_buffer pw pm s = Inr s'"
  shows "\<exists>t. cfg_get (buffer_args s') ''type'' = Some (PStr t)
           \<and> t \<in> {''EpisodeER'', ''NstepPER'', ''PER'', ''NstepER'', ''ER'', ''None''}"
  using assms(1)
proof (cases rule: select_buffer_cases)
  case on_policy
  then show ?thesis by (simp add: cfg_get_set)
next
  case (episode use_rnn)
  from select_episode_type [OF episode(4)] show ?thesis by simp
next
  case (transition use_rnn)
  from select_transition_type [OF transition(4)] show ?thesis by simp
qed

lemma build_buffer_keeps:
  assumes "build_buffer X b rhs = Inr (b', buffer)" and "cfg_get b ''type'' = Some (PStr t)"
    and "t \<noteq> key"
  shows "cfg_get b' key = cfg_get b key" and "section_get b' sec ''n'' = section_get b sec ''n''"
proof -
  from assms(1) have a: "assign_agents_num b rhs = Inr b'" by (simp add: build_buffer_Inr_iff)
  show "cfg_get b' key = cfg_get b key"
  proof (cases "str_contains ''Nstep'' t \<or> str_contains ''Episode'' t")
    case True
    with a assms(2) obtain v where "cfg_set_in b t ''agents_num'' v = Inr b'"
      by (auto simp: assign_agents_num_str bind_err_Inr_iff)
    from section_get_cfg_set_in(2) [OF this assms(3)] show ?thesis .
  next
    case False
    with a assms(2) show ?thesis by (simp add: assign_agents_num_str)
  qed
  show "section_get b' sec ''n'' = section_get b sec ''n''"
  proof (cases "str_contains ''Nstep'' t \<or> str_contains ''Episode'' t")
    case True
    with a assms(2) obtain v where "cfg_set_in b t ''agents_num'' v = Inr b'"
      by (auto simp: assign_agents_num_str bind_err_Inr_iff)
    from section_get_cfg_set_in(1) [OF this, of sec "''n''"] show ?thesis by simp
  next
    case False
    with a assms(2) show ?thesis by (simp add: assign_agents_num_str)
  qed
qed

lemma agent_init_calls:
  assumes "agent_init X ea ma ba ta = Inr a"
  shows "\<exists>s1 k pm s2. init_config X ea ma ba ta = Inr (s1, k, pm)
           \<and> select_buffer (x_pow X) pm s1 = Inr s2
           \<and> (\<forall>cfg \<in> set (get_buffer_calls (trace a)).
                 \<exists>rhs buffer. build_buffer X (buffer_args s2) rhs = Inr (cfg, buffer))
           \<and> (cfg_get ea ''type'' = Some (PStr ''gym'') \<or> multi_agents_training a
                 \<longrightarrow> get_buffer_calls (trace a) = [buffer_args a])"
proof -
  from assms obtain s1 k pm s2 et where
    c: "init_config X ea ma ba ta = Inr (s1, k, pm)"
    and sel: "select_buffer (x_pow X) pm s1 = Inr s2"
    and et: "cfg_get (env_args s2) ''type'' = Some et"
    and br: "(if et = PStr ''gym'' then init_gym X k s2
              else if multi_agents_training s2 then init_ma_unity X k s2
              else init_unity X k s2) = Inr a"
    unfolding agent_init_def
    by (auto simp: bind_err_Inr_iff cfg_item_Inr_iff)
  from init_config_frame [OF c] have s1: "buffer_args s1 = ba" "env_args s1 = ea" "trace s1 = []"
    by simp_all
  from select_buffer_frame [OF sel] s1
  have s2: "env_args s2 = ea" "get_buffer_calls (trace s2) = []" by simp_all
  consider (one) "et = PStr ''gym'' \<or> multi_agents_training s2"
    | (brains) "et \<noteq> PStr ''gym''" "\<not> multi_agents_training s2"
    by blast
  then have "(\<forall>cfg \<in> set (get_buffer_calls (trace a)).
                 \<exists>rhs buffer. build_buffer X (buffer_args s2) rhs = Inr (cfg, buffer))
           \<and> (cfg_get ea ''type'' = Some (PStr ''gym'') \<or> multi_agents_training a
                 \<longrightarrow> get_buffer_calls (trace a) = [buffer_args a])"
  proof cases
    case one
    with br init_gym_buffer [of X k s2 a] init_ma_unity_buffer [of X k s2 a]
    obtain buffer where
      bb: "build_buffer X (buffer_args s2) (cfg_item (env_args s2) ''env_num'') = Inr (buffer_args a, buffer)"
      and tr: "trace a = trace s2 @ [GetBuffer (buffer_args a), SetBuffer]"
      by (auto split: if_splits)
    from tr s2 have calls: "get_buffer_calls (trace a) = [buffer_args a]"
      by (simp add: get_buffer_calls_append)
    with bb show ?thesis by auto
  next
    case brains
    with br have "init_unity X k s2 = Inr a" by simp
    then obtain bs where lp: "init_brains X k (s2\<lparr>models := Some []\<rparr>) 0 bs = Inr a"
      unfolding init_unity_def by (elim bind_err_InrE) auto
    from init_brains_buffers [OF lp] s2 obtain cfgs where
      fr: "multi_agents_training a = multi_agents_training s2"
      and calls: "get_buffer_calls (trace a) = cfgs"
      and each: "\<forall>j < length cfgs. \<exists>buffer.
                   build_buffer X (buffer_args s2) (env_attr_at X (env s2) ''brain_agents'' j)
                     = Inr (cfgs ! j, buffer)"
      by auto
    from brains et s2 fr have g: "\<not> (cfg_get ea ''type'' = Some (PStr ''gym'') \<or> multi_agents_training a)"
      by auto
    have "\<exists>rhs buffer. build_buffer X (buffer_args s2) rhs = Inr (cfg, buffer)" if "cfg \<in> set cfgs" for cfg
    proof -
      from that obtain j where "j < length cfgs" "cfg = cfgs ! j" by (auto simp: in_set_conv_nth)
      with each show ?thesis by blast
    qed
    with calls g show ?thesis by auto
  qed
  with c sel show ?thesis by blast
qed

text \<open>
  C3, as stated, fails: with \<^verbatim>\<open>n_step\<close> set, \<open>n = 0\<close> in the NstepER section and a
  buffer size 5 below the batch size 10, buffer selection raises nothing and stores
  these values.
\<close>

theorem invalid_configuration_accepted:
  "select_buffer int_pow ''off-policy''
     (example_agent [(KStr ''NstepER'', PDict [(KStr ''n'', PInt 0)])] []
        [(KStr ''use_rnn'', PBool False), (KStr ''n_step'', PBool True), (KStr ''gamma'', PInt 1),
         (KStr ''batch_size'', PInt 10), (KStr ''buffer_size'', PInt 5)])
   = Inr ((example_agent
        [(KStr ''NstepER'', PDict [(KStr ''n'', PInt 0), (KStr ''gamma'', PInt 1)]),
         (KStr ''batch_size'', PInt 10), (KStr ''buffer_size'', PInt 5), (KStr ''type'', PStr ''NstepER'')] []
        [(KStr ''use_rnn'', PBool False), (KStr ''n_step'', PBool True), (KStr ''gamma'', PInt 1),
         (KStr ''batch_size'', PInt 10), (KStr ''buffer_size'', PInt 5)])
        \<lparr>trace := [Pow (PInt 1) (PInt 0)]\<rparr>)"
  by (simp add: example_defs)

text \<open>
  C3, amended. Buffer selection (lines 110 to 140) raises only the exceptions of a
  failed subscript (KeyError, TypeError) and what \<^verbatim>\<open>pow\<close> raises. When it returns
  for an off-policy algorithm, with or without recurrent state, the batch size and
  buffer size are what \<^verbatim>\<open>algo_args.get\<close> gave (0 for a missing key) and \<open>n\<close> of the
  n-step sections is as configured: nothing is checked and nothing is clamped. When
  the constructor returns, every configuration that \<^verbatim>\<open>get_buffer\<close> received carries
  the batch size and buffer size that selection stored and \<open>n\<close> as the caller
  configured it; for gym and for a multi-agent algorithm \<^verbatim>\<open>get_buffer\<close> received
  exactly one configuration, the agent's.
\<close>

theorem buffer_selection_does_not_validate:
  "(select_buffer pw policy_mode s = Inl e \<longrightarrow> is_lookup_error e \<or> (\<exists>g n. pw g n = Inl e))
   \<and> (select_buffer pw ''off-policy'' s = Inr s' \<and> cfg_get (algo_args s) ''use_rnn'' = Some u \<longrightarrow>
        cfg_get (buffer_args s') ''batch_size''
          = Some (cfg_get_default (algo_args s)
                    (if py_eq_True u then ''episode_batch_size'' else ''batch_size'') (PInt 0))
      \<and> cfg_get (buffer_args s') ''buffer_size''
          = Some (cfg_get_default (algo_args s)
                    (if py_eq_True u then ''episode_buffer_size'' else ''buffer_size'') (PInt 0))
      \<and> (\<forall>sec \<in> {''NstepER'', ''NstepPER''}.
            section_get (buffer_args s') sec ''n'' = section_get (buffer_args s) sec ''n''))
   \<and> (agent_init X ea ma ba ta = Inr a \<longrightarrow>
        (\<exists>s1 k pm s2. init_config X ea ma ba ta = Inr (s1, k, pm)
           \<and> select_buffer (x_pow X) pm s1 = Inr s2
           \<and> (cfg_get ea ''type'' = Some (PStr ''gym'') \<or> multi_agents_training a
                 \<longrightarrow> get_buffer_calls (trace a) = [buffer_args a])
           \<and> (\<forall>cfg \<in> set (get_buffer_calls (trace a)).
                 cfg_get cfg ''batch_size'' = cfg_get (buffer_args s2) ''batch_size''
               \<and> cfg_get cfg ''buffer_size'' = cfg_get (buffer_args s2) ''buffer_size''
               \<and> (\<forall>sec \<in> {''NstepER'', ''NstepPER''}.
                     section_get cfg sec ''n'' = section_get ba sec ''n''))))"
proof (intro conjI impI)
  assume "select_buffer pw policy_mode s = Inl e"
  then show "is_lookup_error e \<or> (\<exists>g n. pw g n = Inl e)" by (rule select_buffer_Inl)
next
  assume a: "select_buffer pw ''off-policy'' s = Inr s' \<and> cfg_get (algo_args s) ''use_rnn'' = Some u"
  then have sel: "select_buffer pw ''off-policy'' s = Inr s'" by simp
  from a have br: "(if py_eq_True u then select_episode s else select_transition pw s) = Inr s'"
    by (auto simp: select_buffer_def bind_err_def cfg_item_def)
  show "cfg_get (buffer_args s') ''batch_size''
          = Some (cfg_get_default (algo_args s)
                    (if py_eq_True u then ''episode_batch_size'' else ''batch_size'') (PInt 0))"
    using br select_episode_sizes(1) [of s s'] select_transition_sizes(1) [of pw s s']
    by (simp split: if_splits)
  show "cfg_get (buffer_args s') ''buffer_size''
          = Some (cfg_get_default (algo_args s)
                    (if py_eq_True u then ''episode_buffer_size'' else ''buffer_size'') (PInt 0))"
    using br select_episode_sizes(2) [of s s'] select_transition_sizes(2) [of pw s s']
    by (simp split: if_splits)
  show "\<forall>sec \<in> {''NstepER'', ''NstepPER''}.
            section_get (buffer_args s') sec ''n'' = section_get (buffer_args s) sec ''n''"
    using select_buffer_n [OF sel] by simp
next
  assume "agent_init X ea ma ba ta = Inr a"
  from agent_init_calls [OF this] obtain s1 k pm s2 where
    c: "init_config X ea ma ba ta = Inr (s1, k, pm)"
    and sel: "select_buffer (x_pow X) pm s1 = Inr s2"
    and each: "\<forall>cfg \<in> set (get_buffer_calls (trace a)).
                 \<exists>rhs buffer. build_buffer X (buffer_args s2) rhs = Inr (cfg, buffer)"
    and one: "cfg_get ea ''type'' = Some (PStr ''gym'') \<or> multi_agents_training a
                 \<longrightarrow> get_buffer_calls (trace a) = [buffer_args a]"
    by blast
  from init_config_frame [OF c] have ba: "buffer_args s1 = ba" by simp
  from select_buffer_type_name [OF sel] obtain t where
    t: "cfg_get (buffer_args s2) ''type'' = Some (PStr t)"
    and tn: "t \<in> {''EpisodeER'', ''NstepPER'', ''PER'', ''NstepER'', ''ER'', ''None''}"
    by blast
  from tn have ne: "t \<noteq> ''batch_size''" "t \<noteq> ''buffer_size''" by auto
  have "cfg_get cfg ''batch_size'' = cfg_get (buffer_args s2) ''batch_size''
      \<and> cfg_get cfg ''buffer_size'' = cfg_get (buffer_args s2) ''buffer_size''
      \<and> (\<forall>sec \<in> {''NstepER'', ''NstepPER''}. section_get cfg sec ''n'' = section_get ba sec ''n'')"
    if "cfg \<in> set (get_buffer_calls (trace a))" for cfg
  proof -
    from that each obtain rhs buffer where
      bb: "build_buffer X (buffer_args s2) rhs = Inr (cfg, buffer)" by blast
    from build_buffer_keeps [OF bb t] ne select_buffer_n [OF sel] ba
    show ?thesis by simp
  qed
  with c sel one
  show "\<exists>s1 k pm s2. init_config X ea ma ba ta = Inr (s1, k, pm)
           \<and> select_buffer (x_pow X) pm s1 = Inr s2
           \<and> (cfg_get ea ''type'' = Some (PStr ''gym'') \<or> multi_agents_training a
                 \<longrightarrow> get_buffer_calls (trace a) = [buffer_args a])
           \<and> (\<forall>cfg \<in> set (get_buffer_calls (trace a)).
                 cfg_get cfg ''batch_size'' = cfg_get (buffer_args s2) ''batch_size''
               \<and> cfg_get cfg ''buffer_size'' = cfg_get (buffer_args s2) ''buffer_size''
               \<and> (\<forall>sec \<in> {''NstepER'', ''NstepPER''}.
                     section_get cfg sec ''n'' = section_get ba sec ''n''))"
    by blast
qed


theorem buffer_selection_does_not_validate_witness:
  "select_buffer int_pow ''off-policy''
     (example_agent [] [] [(KStr ''use_rnn'', PBool False), (KStr ''n_step'', PInt 0),
        (KStr ''use_priority'', PBool True)]) = Inl (KeyError (KStr ''max_train_step''))
   \<and> is_lookup_error (KeyError (KStr ''max_train_step''))
   \<and> (\<exists>s'. select_buffer int_pow ''off-policy''
         (example_agent [(KStr ''EpisodeER'', PDict []), (KStr ''NstepER'', PDict [(KStr ''n'', PInt 0)])] []
            [(KStr ''use_rnn'', PBool True), (KStr ''episode_batch_size'', PInt 64),
             (KStr ''episode_buffer_size'', PInt 8)]) = Inr s'
       \<and> cfg_get (buffer_args s') ''batch_size'' = Some (PInt 64)
       \<and> cfg_get (buffer_args s') ''buffer_size'' = Some (PInt 8)
       \<and> section_get (buffer_args s') ''NstepER'' ''n'' = Some (PInt 0))
   \<and> (\<exists>a. agent_init
              (example_registry [(KStr ''n_step'', PBool True), (KStr ''gamma'', PInt 1),
                                 (KStr ''batch_size'', PInt 10), (KStr ''buffer_size'', PInt 5)])
              [(KStr ''type'', PStr ''gym''), (KStr ''env_num'', PInt 8)] example_model_args
              [(KStr ''NstepER'', PDict [(KStr ''n'', PInt 0)])] example_train_args = Inr a
       \<and> get_buffer_calls (trace a) = [buffer_args a]
       \<and> cfg_get (buffer_args a) ''batch_size'' = Some (PInt 10)
       \<and> cfg_get (buffer_args a) ''buffer_size'' = Some (PInt 5)
       \<and> section_get (buffer_args a) ''NstepER'' ''n'' = Some (PInt 0))"
proof -
  let ?a = "example_agent [] [] [(KStr ''use_rnn'', PBool False), (KStr ''n_step'', PInt 0),
        (KStr ''use_priority'', PBool True)]"
  let ?b = "example_agent [(KStr ''EpisodeER'', PDict []), (KStr ''NstepER'', PDict [(KStr ''n'', PInt 0)])] []
            [(KStr ''use_rnn'', PBool True), (KStr ''episode_batch_size'', PInt 64),
             (KStr ''episode_buffer_size'', PInt 8)]"
  let ?X = "example_registry [(KStr ''n_step'', PBool True), (KStr ''gamma'', PInt 1),
                                 (KStr ''batch_size'', PInt 10), (KStr ''buffer_size'', PInt 5)]"
  let ?ea = "[(KStr ''type'', PStr ''gym''), (KStr ''env_num'', PInt 8)]"
  let ?ba = "[(KStr ''NstepER'', PDict [(KStr ''n'', PInt 0)])]"
  have fail: "select_buffer int_pow ''off-policy'' ?a = Inl (KeyError (KStr ''max_train_step''))"
    by (simp add: example_defs)
  have np: "\<not> (\<exists>g n. int_pow g n = Inl (KeyError (KStr ''max_train_step'')))"
    by (auto simp: int_pow_def split: pyval.splits if_splits)
  have "select_buffer int_pow ''off-policy'' ?a = Inl (KeyError (KStr ''max_train_step''))
      \<longrightarrow> is_lookup_error (KeyError (KStr ''max_train_step''))
        \<or> (\<exists>g n. int_pow g n = Inl (KeyError (KStr ''max_train_step'')))"
    by (rule buffer_selection_does_not_validate [THEN conjunct1])
  with fail np have e: "is_lookup_error (KeyError (KStr ''max_train_step''))" by blast
  obtain s' where h: "select_buffer int_pow ''off-policy'' ?b = Inr s'"
    by (simp add: example_defs)
  have u: "cfg_get (algo_args ?b) ''use_rnn'' = Some (PBool True)"
    by (simp add: example_agent_def cfg_get_def)
  have "select_buffer int_pow ''off-policy'' ?b = Inr s' \<and> cfg_get (algo_args ?b) ''use_rnn'' = Some (PBool True)
      \<longrightarrow> cfg_get (buffer_args s') ''batch_size''
          = Some (cfg_get_default (algo_args ?b)
                    (if py_eq_True (PBool True) then ''episode_batch_size'' else ''batch_size'') (PInt 0))
      \<and> cfg_get (buffer_args s') ''buffer_size''
          = Some (cfg_get_default (algo_args ?b)
                    (if py_eq_True (PBool True) then ''episode_buffer_size'' else ''buffer_size'') (PInt 0))
      \<and> (\<forall>sec \<in> {''NstepER'', ''NstepPER''}.
            section_get (buffer_args s') sec ''n'' = section_get (buffer_args ?b) sec ''n'')"
    by (rule buffer_selection_does_not_validate [THEN conjunct2, THEN conjunct1])
  with h u
  have rec: "cfg_get (buffer_args s') ''batch_size'' = Some (PInt 64)
       \<and> cfg_get (buffer_args s') ''buffer_size'' = Some (PInt 8)
       \<and> section_get (buffer_args s') ''NstepER'' ''n'' = Some (PInt 0)"
    by (simp add: example_agent_def cfg_get_def cfg_get_default_def section_get_def)
  obtain a where i: "agent_init ?X ?ea example_model_args ?ba example_train_args = Inr a"
    by (simp add: init_defs example_defs example_registry_def)
  have sizes: "cfg_get (buffer_args s2) ''batch_size'' = Some (PInt 10)
             \<and> cfg_get (buffer_args s2) ''buffer_size'' = Some (PInt 5)"
    if "init_config ?X ?ea example_model_args ?ba example_train_args = Inr (s1, k, pm)"
      and "select_buffer (x_pow ?X) pm s1 = Inr s2" for s1 k pm s2
    using that by (auto simp: init_defs example_defs example_registry_def)
  have "agent_init ?X ?ea example_model_args ?ba example_train_args = Inr a \<longrightarrow>
        (\<exists>s1 k pm s2. init_config ?X ?ea example_model_args ?ba example_train_args = Inr (s1, k, pm)
           \<and> select_buffer (x_pow ?X) pm s1 = Inr s2
           \<and> (cfg_get ?ea ''type'' = Some (PStr ''gym'') \<or> multi_agents_training a
                 \<longrightarrow> get_buffer_calls (trace a) = [buffer_args a])
           \<and> (\<forall>cfg \<in> set (get_buffer_calls (trace a)).
                 cfg_get cfg ''batch_size'' = cfg_get (buffer_args s2) ''batch_size''
               \<and> cfg_get cfg ''buffer_size'' = cfg_get (buffer_args s2) ''buffer_size''
               \<and> (\<forall>sec \<in> {''NstepER'', ''NstepPER''}.
                     section_get cfg sec ''n'' = section_get ?ba sec ''n'')))"
    by (rule buffer_selection_does_not_validate [THEN conjunct2, THEN conjunct2])
  with i obtain s1 k pm s2 where
    "init_config ?X ?ea example_model_args ?ba example_train_args = Inr (s1, k, pm)"
    "select_buffer (x_pow ?X) pm s1 = Inr s2"
    and one: "cfg_get ?ea ''type'' = Some (PStr ''gym'') \<or> multi_agents_training a
                 \<longrightarrow> get_buffer_calls (trace a) = [buffer_args a]"
    and each: "\<forall>cfg \<in> set (get_buffer_calls (trace a)).
                 cfg_get cfg ''batch_size'' = cfg_get (buffer_args s2) ''batch_size''
               \<and> cfg_get cfg ''buffer_size'' = cfg_get (buffer_args s2) ''buffer_size''
               \<and> (\<forall>sec \<in> {''NstepER'', ''NstepPER''}.
                     section_get cfg sec ''n'' = section_get ?ba sec ''n'')"
    by blast
  with sizes have s2: "cfg_get (buffer_args s2) ''batch_size'' = Some (PInt 10)"
    "cfg_get (buffer_args s2) ''buffer_size'' = Some (PInt 5)" by blast+
  from one have calls: "get_buffer_calls (trace a) = [buffer_args a]"
    by (simp add: cfg_get_def)
  with each s2 have "cfg_get (buffer_args a) ''batch_size'' = Some (PInt 10)
       \<and> cfg_get (buffer_args a) ''buffer_size'' = Some (PInt 5)
       \<and> section_get (buffer_args a) ''NstepER'' ''n'' = Some (PInt 0)"
    by (simp add: section_get_def cfg_get_def)
  with fail e h rec i calls show ?thesis by blast
qed

section \<open>Properties of train, evaluate and run\<close>

lemma train_body_keeps:
  assumes "\<And>e x a. f (snd (fst (no_op e x a))) = f x" and "\<And>e x a. f (snd (fst (training e x a))) = f x"
  shows "f (snd (fst (train_body no_op args1 training args2 e x))) = f x"
proof (cases args1)
  case (Inl err)
  then show ?thesis by (simp add: train_body_def)
next
  case (Inr a1)
  obtain e1 x1 r where n: "no_op e x a1 = ((e1, x1), r)" by (metis surj_pair)
  from assms(1) [of e x a1] n have x1: "f x1 = f x" by simp
  show ?thesis
  proof (cases r)
    case None
    show ?thesis
    proof (cases args2)
      case (Inl err)
      with Inr n None x1 show ?thesis by (simp add: train_body_def)
    next
      case (Inr a2)
      with \<open>args1 = Inr a1\<close> n None x1 assms(2) [of e1 x1 a2] show ?thesis
        by (simp add: train_body_def)
    qed
  next
    case (Some err)
    with Inr n x1 show ?thesis by (simp add: train_body_def)
  qed
qed

lemma finally_close_keeps:
  assumes "\<And>x. f (fst (close x)) = f x"
  shows "f (snd (fst (finally_close T close r))) = f (snd (fst r))"
proof -
  obtain e x pending where r: "r = ((e, x), pending)" by (metis surj_pair)
  obtain x1 c where c: "close x = (x1, c)" by (metis surj_pair)
  from assms [of x] c have "f x1 = f x" by simp
  with r c show ?thesis
    by (auto simp: finally_close_def split: option.splits prod.splits)
qed

lemma close_models_keeps:
  assumes "\<And>m. variant (fst (t_model_close T m)) = variant m"
  shows "map variant (fst (close_models T ms)) = map variant ms"
proof (induction ms)
  case Nil
  then show ?case by simp
next
  case (Cons m ms)
  obtain m1 c where c: "t_model_close T m = (m1, c)" by (metis surj_pair)
  from assms [of m] c have "variant m1 = variant m" by simp
  with c Cons show ?case
    by (auto split: option.splits prod.splits)
qed

lemma inference_keeps:
  assumes "\<And>e x a. f (snd (fst (g e x a))) = f x"
  shows "f (snd (fst (inference g args e x))) = f x"
  using assms by (cases args) (simp_all add: inference_def)

lemma train_frame:
  "buffer_args (fst (train T s)) = buffer_args s \<and> trace (fst (train T s)) = trace s
   \<and> algo_args (fst (train T s)) = algo_args s"
  by (simp add: train_def split: sum.splits option.splits prod.splits)

lemma evaluate_frame:
  "buffer_args (fst (evaluate T s)) = buffer_args s \<and> trace (fst (evaluate T s)) = trace s
   \<and> algo_args (fst (evaluate T s)) = algo_args s"
  by (simp add: evaluate_def split: sum.splits option.splits prod.splits)


lemma train_keeps_variant:
  assumes "keeps_variant T variant"
  shows "map_option variant (model (fst (train T s))) = map_option variant (model s)"
    and "map_option (map variant) (models (fst (train T s))) = map_option (map variant) (models s)"
proof -
  have one: "variant (snd (fst (finally_close T (t_model_close T)
               (train_body no_op a1 training a2 e m)))) = variant m"
    if "\<And>e x a. variant (snd (fst (no_op e x a))) = variant x"
      and "\<And>e x a. variant (snd (fst (training e x a))) = variant x" for no_op training a1 a2 e m
  proof -
    from assms have "\<And>x. variant (fst (t_model_close T x)) = variant x"
      by (simp add: keeps_variant_def)
    then show ?thesis
      by (simp add: finally_close_keeps [of variant "t_model_close T"]
          train_body_keeps [of variant no_op training, OF that])
  qed
  have many: "map variant (snd (fst (finally_close T (close_models T)
               (train_body no_op a1 training a2 e ms)))) = map variant ms"
    if "\<And>e x a. map variant (snd (fst (no_op e x a))) = map variant x"
      and "\<And>e x a. map variant (snd (fst (training e x a))) = map variant x" for no_op training a1 a2 e ms
  proof -
    from assms have "\<And>m. variant (fst (t_model_close T m)) = variant m"
      by (simp add: keeps_variant_def)
    then have "\<And>x. map variant (fst (close_models T x)) = map variant x"
      by (rule close_models_keeps)
    then show ?thesis
      by (simp add: finally_close_keeps [of "map variant" "close_models T"]
          train_body_keeps [of "map variant" no_op training, OF that])
  qed
  from assms have g: "\<And>a1 a2 e m. variant (snd (fst (finally_close T (t_model_close T)
               (train_body (t_gym_no_op T) a1 (t_gym_train T) a2 e m)))) = variant m"
    by (intro one) (simp_all add: keeps_variant_def)
  from assms have ma: "\<And>a1 a2 e m. variant (snd (fst (finally_close T (t_model_close T)
               (train_body (t_ma_unity_no_op T) a1 (t_ma_unity_train T) a2 e m)))) = variant m"
    by (intro one) (simp_all add: keeps_variant_def)
  from assms have u: "\<And>a1 a2 e ms. map variant (snd (fst (finally_close T (close_models T)
               (train_body (t_unity_no_op T) a1 (t_unity_train T) a2 e ms)))) = map variant ms"
    by (intro many) (simp_all add: keeps_variant_def)
  show "map_option variant (model (fst (train T s))) = map_option variant (model s)"
    by (simp add: train_def case_prod_beta g ma split: sum.splits option.splits)
  show "map_option (map variant) (models (fst (train T s))) = map_option (map variant) (models s)"
    by (simp add: train_def case_prod_beta u split: sum.splits option.splits)
qed

lemma evaluate_keeps_variant:
  assumes "keeps_variant T variant"
  shows "map_option variant (model (fst (evaluate T s))) = map_option variant (model s)"
    and "map_option (map variant) (models (fst (evaluate T s))) = map_option (map variant) (models s)"
proof -
  from assms have g: "\<And>a e m. variant (snd (fst (inference (t_gym_inference T) a e m))) = variant m"
    by (intro inference_keeps) (simp add: keeps_variant_def)
  from assms have ma: "\<And>a e m. variant (snd (fst (inference (t_ma_unity_inference T) a e m))) = variant m"
    by (intro inference_keeps) (simp add: keeps_variant_def)
  from assms have u: "\<And>a e ms. map variant (snd (fst (inference (t_unity_inference T) a e ms))) = map variant ms"
    by (intro inference_keeps) (simp add: keeps_variant_def)
  show "map_option variant (model (fst (evaluate T s))) = map_option variant (model s)"
    by (simp add: evaluate_def case_prod_beta g ma split: sum.splits option.splits)
  show "map_option (map variant) (models (fst (evaluate T s))) = map_option (map variant) (models s)"
    by (simp add: evaluate_def case_prod_beta u split: sum.splits option.splits)
qed


text \<open>
  C4. Whichever of train, evaluate and run is called on an agent, the agent's buffer
  configuration, and with it the selected type, is afterwards as it was, and the agent
  has made no call of \<^verbatim>\<open>get_buffer\<close> or \<^verbatim>\<open>set_buffer\<close>, whether the operation
  returned or raised. The model objects are handed to the training and inference
  loops and kept: if those loops and \<^verbatim>\<open>close\<close> leave the variant of a model's buffer
  as it is, it is the same after the operation.
\<close>

theorem buffer_variant_fixed_after_construction:
  assumes "s' = fst (train T s) \<or> s' = fst (evaluate T s) \<or> s' = fst (run mode s)"
  shows "buffer_args s' = buffer_args s \<and> trace s' = trace s
       \<and> (keeps_variant T variant \<longrightarrow>
             map_option variant (model s') = map_option variant (model s)
           \<and> map_option (map variant) (models s') = map_option (map variant) (models s))"
proof -
  from assms consider (train) "s' = fst (train T s)" | (evaluate) "s' = fst (evaluate T s)"
    | (run) "s' = fst (run mode s)" by blast
  then show ?thesis
  proof cases
    case train
    with train_frame [of T s] train_keeps_variant [of T variant s] show ?thesis by simp
  next
    case evaluate
    with evaluate_frame [of T s] evaluate_keeps_variant [of T variant s] show ?thesis by simp
  next
    case run
    then have "s' = s" by (simp add: run_def)
    then show ?thesis by simp
  qed
qed

theorem buffer_variant_fixed_after_construction_witness:
  "keeps_variant example_trainers (\<lambda>m. m)
   \<and> snd (train example_trainers example_gym_agent) = Some (KeyError (KStr ''pre_fill_steps''))
   \<and> snd (evaluate example_trainers example_gym_agent) = None
   \<and> buffer_args (fst (train example_trainers example_gym_agent)) = [(KStr ''type'', PStr ''NstepER'')]
   \<and> model (fst (train example_trainers example_gym_agent)) = Some ''NstepER''
   \<and> buffer_args (fst (evaluate example_trainers example_gym_agent)) = [(KStr ''type'', PStr ''NstepER'')]
   \<and> model (fst (evaluate example_trainers example_gym_agent)) = Some ''NstepER''"
proof -
  have k: "keeps_variant example_trainers (\<lambda>m. m)"
    by (simp add: keeps_variant_def example_trainers_def)
  have t: "snd (train example_trainers example_gym_agent) = Some (KeyError (KStr ''pre_fill_steps''))"
    by (simp add: train_def train_body_def finally_close_def eval_args_def no_op_args_def
        cfg_item_def cfg_get_def bind_err_def example_trainers_def example_gym_agent_def)
  have e: "snd (evaluate example_trainers example_gym_agent) = None"
    by (simp add: evaluate_def inference_def eval_args_def
        cfg_item_def cfg_get_def bind_err_def example_trainers_def example_gym_agent_def)
  from buffer_variant_fixed_after_construction
    [of "fst (train example_trainers example_gym_agent)" example_trainers example_gym_agent
        "''worker''" "\<lambda>m. m"] k
  have a: "buffer_args (fst (train example_trainers example_gym_agent)) = [(KStr ''type'', PStr ''NstepER'')]
      \<and> model (fst (train example_trainers example_gym_agent)) = Some ''NstepER''"
    by (simp add: example_gym_agent_def option.map_ident)
  from buffer_variant_fixed_after_construction
    [of "fst (evaluate example_trainers example_gym_agent)" example_trainers example_gym_agent
        "''worker''" "\<lambda>m. m"] k
  have b: "buffer_args (fst (evaluate example_trainers example_gym_agent)) = [(KStr ''type'', PStr ''NstepER'')]
      \<and> model (fst (evaluate example_trainers example_gym_agent)) = Some ''NstepER''"
    by (simp add: example_gym_agent_def option.map_ident)
  from k t e a b show ?thesis by simp
qed

end
